theory Spec2Isabelle
  imports Complex_Main "HOL-Library.AList"
begin

section \<open>Data model of the live keypoint measurer\<close>

text \<open>
  The class \<open>LiveKeypointDistanceMeasurer\<close> of \<open>measurment2.py\<close> keeps all of its state in
  instance attributes. The attributes that the functions below read or write are the fields
  of the record \<open>measurer\<close>. Python floats are modelled as reals (rounding, infinities and
  NaN are outside the model), Python integers as \<open>int\<close>, a point \<open>[x, y]\<close> as a pair, a
  dictionary as an association list in insertion order with unique keys.
\<close>

type_synonym point = "real \<times> real"

datatype side = Front | Back

datatype transfer_method = Homography | MLS | Auto

text \<open>The documents that \<open>json.dump\<close> writes and \<open>json.load\<close> reads.\<close>

datatype json =
    JNull
  | JBool bool
  | JNum real
  | JStr string
  | JArr "json list"
  | JObj "(string \<times> json) list"

datatype py_error = IndexError | KeyError | ValueError | TypeError | AttributeError
  | ZeroDivisionError | OSError | CvError

record measurer =
  keypoints :: "point list"
  back_keypoints :: "point list"
  current_side :: side
  placement_box :: "real list"
  pixels_per_cm :: real
  is_calibrated :: bool
  min_matches :: nat
  qc_tolerance_cm :: real
  target_distances :: "(int \<times> real) list"
  back_target_distances :: "(int \<times> real) list"
  qc_results :: "(int \<times> string) list"
  keypoint_stabilized :: bool
  stabilization_threshold :: real
  last_valid_keypoints :: "point list"
  stabilization_frames :: nat
  transfer_method :: transfer_method
  alpha :: real
  corner_keypoints_count :: nat
  corner_template_size :: int
  corner_matching_threshold :: real
  has_reference_image :: bool
  has_back_reference_image :: bool
  annotation_file :: "json option"
  back_annotation_file :: "json option"
  reference_image_file :: bool
  back_reference_image_file :: bool
  fs_writable :: bool
  imwrite_ok :: bool
  clock_now :: string

text \<open>
  \<open>has_reference_image\<close> says that \<open>self.reference_image\<close> is not \<open>None\<close> (the pixels are not
  modelled). The last seven fields are the part of the environment that the persistence
  functions touch: the contents of the two annotation files (\<open>None\<close> when the file does not
  exist), whether a readable reference image file exists for each side, whether
  \<open>open(..., 'w')\<close> succeeds, whether \<open>cv2.imwrite\<close> succeeds, and the text of
  \<open>str(np.datetime64('now'))\<close>.
\<close>

section \<open>Python built-ins used by the persistence code\<close>

text \<open>\<open>str\<close> on an integer: a minus sign for a negative number, then the decimal digits.\<close>

definition digit_char :: "nat \<Rightarrow> char" where
  "digit_char d = ''0123456789'' ! d"

fun nat_digits :: "nat \<Rightarrow> string" where
  "nat_digits n = (if n < 10 then [digit_char n] else nat_digits (n div 10) @ [digit_char (n mod 10)])"

declare nat_digits.simps [simp del]

definition str_int :: "int \<Rightarrow> string" where
  "str_int k = (if k < 0 then CHR ''-'' # nat_digits (nat (- k)) else nat_digits (nat k))"

text \<open>
  \<open>int\<close> on a string: surrounding ASCII whitespace is stripped, one sign is allowed, single
  underscores may separate digits, and at least one decimal digit is required; anything else
  raises \<open>ValueError\<close>. (Non-ASCII digits and spaces, which Python also accepts, are not
  covered.)
\<close>

definition is_space :: "char \<Rightarrow> bool" where
  "is_space c = (c \<in> set [CHR '' '', CHR 0x09, CHR 0x0A, CHR 0x0B, CHR 0x0C, CHR 0x0D])"

definition is_digit :: "char \<Rightarrow> bool" where
  "is_digit c = (48 \<le> (of_char c :: nat) \<and> (of_char c :: nat) \<le> 57)"

definition strip :: "string \<Rightarrow> string" where
  "strip s = rev (dropWhile is_space (rev (dropWhile is_space s)))"

fun drop_underscores :: "bool \<Rightarrow> string \<Rightarrow> string option" where
  "drop_underscores after_digit [] = (if after_digit then Some [] else None)"
| "drop_underscores after_digit (c # cs) =
     (if c = CHR ''_'' then (if after_digit then drop_underscores False cs else None)
      else map_option ((#) c) (drop_underscores True cs))"

definition digits_value :: "string \<Rightarrow> nat" where
  "digits_value ds = foldl (\<lambda>acc c. 10 * acc + (of_char c - 48)) 0 ds"

definition parse_digits :: "string \<Rightarrow> py_error + nat" where
  "parse_digits s =
     (case drop_underscores False s of
        None \<Rightarrow> Inl ValueError
      | Some ds \<Rightarrow> if ds \<noteq> [] \<and> list_all is_digit ds then Inr (digits_value ds) else Inl ValueError)"

definition py_int :: "string \<Rightarrow> py_error + int" where
  "py_int s =
     (case strip s of
        [] \<Rightarrow> Inl ValueError
      | c # cs \<Rightarrow>
          if c = CHR ''-'' then map_sum id (\<lambda>n. - int n) (parse_digits cs)
          else if c = CHR ''+'' then map_sum id int (parse_digits cs)
          else map_sum id int (parse_digits (c # cs)))"

text \<open>
  \<open>float\<close> on a value read by \<open>json.load\<close>: a number is itself, a boolean is 0 or 1, a string
  goes through Python's float grammar, which is taken as the parameter \<open>float_of_string\<close>;
  \<open>null\<close>, arrays and objects raise \<open>TypeError\<close>.
\<close>

definition py_float :: "(string \<Rightarrow> real option) \<Rightarrow> json \<Rightarrow> py_error + real" where
  "py_float float_of_string v =
     (case v of
        JNum x \<Rightarrow> Inr x
      | JBool b \<Rightarrow> Inr (if b then 1 else 0)
      | JStr s \<Rightarrow> (case float_of_string s of None \<Rightarrow> Inl ValueError | Some x \<Rightarrow> Inr x)
      | _ \<Rightarrow> Inl TypeError)"

text \<open>\<open>dict.get(key, default)\<close> on a JSON object; a later duplicate key wins in \<open>json.load\<close>.\<close>

definition json_get :: "string \<Rightarrow> json \<Rightarrow> json \<Rightarrow> py_error + json" where
  "json_get key dflt doc =
     (case doc of
        JObj kvs \<Rightarrow> (case map_of (rev kvs) key of None \<Rightarrow> Inr dflt | Some v \<Rightarrow> Inr v)
      | _ \<Rightarrow> Inl AttributeError)"

section \<open>Persistence of annotations\<close>

text \<open>
  \<open>json.dump\<close> writes a point \<open>[x, y]\<close> as an array of two numbers and a dictionary with
  integer keys as an object whose keys are the \<open>str\<close> of the integers.
\<close>

definition keypoints_json :: "point list \<Rightarrow> json" where
  "keypoints_json kps = JArr (map (\<lambda>(x, y). JArr [JNum x, JNum y]) kps)"

definition targets_json :: "(int \<times> real) list \<Rightarrow> json" where
  "targets_json td = JObj (map (\<lambda>(k, v). (str_int k, JNum v)) td)"

definition box_json :: "real list \<Rightarrow> json" where
  "box_json box = JArr (map JNum box)"

definition save_reference_image :: "measurer \<Rightarrow> bool \<times> measurer" where
  "save_reference_image s =
     (if has_reference_image s then
        (if imwrite_ok s then (True, s\<lparr>reference_image_file := True\<rparr>) else (False, s))
      else (False, s))"

definition save_back_reference_image :: "measurer \<Rightarrow> bool \<times> measurer" where
  "save_back_reference_image s =
     (if has_back_reference_image s then
        (if imwrite_ok s then (True, s\<lparr>back_reference_image_file := True\<rparr>) else (False, s))
      else (False, s))"

definition save_annotation :: "measurer \<Rightarrow> bool \<times> measurer" where
  "save_annotation s =
     (let annotation_data = JObj
            [(''keypoints'', keypoints_json (keypoints s)),
             (''target_distances'', targets_json (target_distances s)),
             (''placement_box'', box_json (placement_box s)),
             (''annotation_date'', JStr (clock_now s))]
      in if fs_writable s
         then save_reference_image (s\<lparr>annotation_file := Some annotation_data\<rparr>)
         else (False, s))"

definition save_back_annotation :: "measurer \<Rightarrow> bool \<times> measurer" where
  "save_back_annotation s =
     (let annotation_data = JObj
            [(''keypoints'', keypoints_json (back_keypoints s)),
             (''target_distances'', targets_json (back_target_distances s)),
             (''annotation_date'', JStr (clock_now s))]
      in if fs_writable s
         then save_back_reference_image (s\<lparr>back_annotation_file := Some annotation_data\<rparr>)
         else (False, s))"

text \<open>
  Reading back. The attributes of the Python object are untyped, the fields of \<open>measurer\<close>
  are not, so a loaded document is decoded into the types of the data model; a document of
  another shape is reported as \<open>TypeError\<close>.
\<close>

fun point_of_json :: "json \<Rightarrow> py_error + point" where
  "point_of_json (JArr [JNum x, JNum y]) = Inr (x, y)"
| "point_of_json _ = Inl TypeError"

fun sequence_sum :: "('e + 'a) list \<Rightarrow> 'e + 'a list" where
  "sequence_sum [] = Inr []"
| "sequence_sum (r # rs) =
     (case r of
        Inl e \<Rightarrow> Inl e
      | Inr x \<Rightarrow> (case sequence_sum rs of Inl e \<Rightarrow> Inl e | Inr xs \<Rightarrow> Inr (x # xs)))"

fun keypoints_of_json :: "json \<Rightarrow> py_error + point list" where
  "keypoints_of_json (JArr ps) = sequence_sum (map point_of_json ps)"
| "keypoints_of_json _ = Inl TypeError"

fun number_of_json :: "json \<Rightarrow> py_error + real" where
  "number_of_json (JNum x) = Inr x"
| "number_of_json _ = Inl TypeError"

fun box_of_json :: "json \<Rightarrow> py_error + real list" where
  "box_of_json (JArr xs) = sequence_sum (map number_of_json xs)"
| "box_of_json _ = Inl TypeError"

text \<open>
  The dictionary comprehension \<open>{int(k): float(v) for k, v in d.items()}\<close>: the items are
  visited in order, the first failing conversion raises, and a key that repeats after
  conversion keeps its place and takes the later value.
\<close>

fun convert_targets ::
  "(string \<Rightarrow> real option) \<Rightarrow> (int \<times> real) list \<Rightarrow> (string \<times> json) list
     \<Rightarrow> py_error + (int \<times> real) list" where
  "convert_targets fos acc [] = Inr acc"
| "convert_targets fos acc ((k, v) # kvs) =
     (case py_int k of
        Inl e \<Rightarrow> Inl e
      | Inr i \<Rightarrow>
          (case py_float fos v of
             Inl e \<Rightarrow> Inl e
           | Inr x \<Rightarrow> convert_targets fos (AList.update i x acc) kvs))"

fun targets_of_json :: "(string \<Rightarrow> real option) \<Rightarrow> json \<Rightarrow> py_error + (int \<times> real) list" where
  "targets_of_json fos (JObj kvs) = convert_targets fos [] kvs"
| "targets_of_json fos _ = Inl AttributeError"

definition load_reference_image :: "measurer \<Rightarrow> bool \<times> measurer" where
  "load_reference_image s =
     (if reference_image_file s then (True, s\<lparr>has_reference_image := True\<rparr>) else (False, s))"

text \<open>
  \<open>load_annotation\<close> returns \<open>Inl e\<close> when the exception \<open>e\<close> is raised inside its \<open>try\<close> block
  (the Python function then prints the error and returns \<open>False\<close>) or when the document does
  not decode into the data model; otherwise the returned flag and the object after the call.
\<close>

definition load_annotation ::
  "(string \<Rightarrow> real option) \<Rightarrow> measurer \<Rightarrow> py_error + bool \<times> measurer" where
  "load_annotation fos s =
     (case annotation_file s of
        None \<Rightarrow> Inr (False, s)
      | Some annotation_data \<Rightarrow>
          (case json_get ''keypoints'' (JArr []) annotation_data of
             Inl e \<Rightarrow> Inl e
           | Inr kj \<Rightarrow>
          (case keypoints_of_json kj of
             Inl e \<Rightarrow> Inl e
           | Inr kps \<Rightarrow>
          (case json_get ''target_distances'' (JObj []) annotation_data of
             Inl e \<Rightarrow> Inl e
           | Inr tj \<Rightarrow>
          (case json_get ''placement_box'' (JArr []) annotation_data of
             Inl e \<Rightarrow> Inl e
           | Inr bj \<Rightarrow>
          (case box_of_json bj of
             Inl e \<Rightarrow> Inl e
           | Inr box \<Rightarrow>
          (case targets_of_json fos tj of
             Inl e \<Rightarrow> Inl e
           | Inr td \<Rightarrow>
              (let s1 = s\<lparr>keypoints := kps, target_distances := td, placement_box := box\<rparr>
               in if kps \<noteq> [] then Inr (load_reference_image s1) else Inr (False, s1)))))))))"

section \<open>Quality check of one measurement\<close>

definition check_qc :: "int \<Rightarrow> real \<Rightarrow> measurer \<Rightarrow> bool \<times> measurer" where
  "check_qc pair_num measured_distance s =
     (let current_target_distances =
            (if current_side s = Front then target_distances s else back_target_distances s)
      in case map_of current_target_distances pair_num of
           None \<Rightarrow>
             (let s1 = (if current_side s = Front
                        then s\<lparr>target_distances :=
                               AList.update pair_num measured_distance (target_distances s)\<rparr>
                        else s\<lparr>back_target_distances :=
                               AList.update pair_num measured_distance (back_target_distances s)\<rparr>);
                  s2 = (if current_side s1 = Front then snd (save_annotation s1)
                        else snd (save_back_annotation s1))
              in (True, s2))
         | Some target_distance \<Rightarrow>
             (let tolerance = qc_tolerance_cm s
              in if \<bar>measured_distance - target_distance\<bar> \<le> tolerance
                 then (True, s\<lparr>qc_results := AList.update pair_num ''PASS'' (qc_results s)\<rparr>)
                 else (False, s\<lparr>qc_results := AList.update pair_num ''FAIL'' (qc_results s)\<rparr>)))"

section \<open>Temporal stabilization\<close>

text \<open>
  \<open>check_coordinated_movement\<close> collects the displacement of every other keypoint that is
  valid in both frames and moved more than 5 pixels; with fewer than three remembered
  keypoints or fewer than two such displacements it answers \<open>True\<close>. \<open>np.mean\<close> of a list
  is its sum divided by its length.
\<close>

definition movement_directions :: "point list \<Rightarrow> point list \<Rightarrow> nat \<Rightarrow> (real \<times> real) list" where
  "movement_directions new_points last_points changed_index =
     concat (map (\<lambda>(i, (new_pt, last_pt)).
        if fst new_pt \<noteq> - 1 \<and> fst last_pt \<noteq> - 1 \<and> i \<noteq> changed_index then
          (let dx = fst new_pt - fst last_pt;
               dy = snd new_pt - snd last_pt;
               magnitude = sqrt (dx\<^sup>2 + dy\<^sup>2)
           in if magnitude > 5 then [(dx, dy)] else [])
        else [])
      (enumerate 0 (zip new_points last_points)))"

definition np_mean :: "real list \<Rightarrow> real" where
  "np_mean xs = sum_list xs / real (length xs)"

definition cosine_term :: "real \<Rightarrow> real \<Rightarrow> real \<times> real \<Rightarrow> real" where
  "cosine_term avg_dx avg_dy d =
     (let dx = fst d; dy = snd d;
          dot_product = dx * avg_dx + dy * avg_dy;
          mag1 = sqrt (dx\<^sup>2 + dy\<^sup>2);
          mag2 = sqrt (avg_dx\<^sup>2 + avg_dy\<^sup>2)
      in if mag1 > 0 \<and> mag2 > 0 then dot_product / (mag1 * mag2) else 0)"

definition check_coordinated_movement :: "measurer \<Rightarrow> point list \<Rightarrow> nat \<Rightarrow> bool" where
  "check_coordinated_movement s new_points changed_index =
     (if length (last_valid_keypoints s) < 3 then True
      else
        (let dirs = movement_directions new_points (last_valid_keypoints s) changed_index
         in if length dirs < 2 then True
            else
              (let avg_dx = np_mean (map fst dirs);
                   avg_dy = np_mean (map snd dirs);
                   consistency = sum_list (map (cosine_term avg_dx avg_dy) dirs)
                                   / real (length dirs)
               in consistency > 0.7)))"

text \<open>
  One iteration of the loop of \<open>stabilize_keypoints\<close>: the position kept for keypoint \<open>i\<close>
  and whether the iteration counted it as valid.
\<close>

definition stabilize_point :: "measurer \<Rightarrow> point list \<Rightarrow> nat \<Rightarrow> point \<Rightarrow> point \<Rightarrow> point \<times> bool" where
  "stabilize_point s new_keypoints i new_point last_point =
     (if fst new_point = - 1 \<or> snd new_point = - 1 then (last_point, False)
      else
        (let distance = sqrt ((fst new_point - fst last_point)\<^sup>2
                              + (snd new_point - snd last_point)\<^sup>2)
         in if distance < stabilization_threshold s then (new_point, True)
            else if check_coordinated_movement s new_keypoints i then (new_point, True)
            else (last_point, False)))"

definition stabilize_keypoints :: "point list \<Rightarrow> measurer \<Rightarrow> point list \<times> measurer" where
  "stabilize_keypoints new_keypoints s =
     (if last_valid_keypoints s = [] \<or> length (last_valid_keypoints s) \<noteq> length new_keypoints
      then (new_keypoints, s\<lparr>last_valid_keypoints := new_keypoints\<rparr>)
      else
        (let results = map (\<lambda>(i, (new_point, last_point)).
                              stabilize_point s new_keypoints i new_point last_point)
                         (enumerate 0 (zip new_keypoints (last_valid_keypoints s)));
             stabilized_points = map fst results;
             valid_count = length (filter snd results);
             s1 = s\<lparr>last_valid_keypoints := stabilized_points\<rparr>;
             s2 = (if valid_count = length new_keypoints then
                     (let s3 = s1\<lparr>stabilization_frames := stabilization_frames s1 + 1\<rparr>
                      in if stabilization_frames s3 \<ge> 2 then s3\<lparr>keypoint_stabilized := True\<rparr>
                         else s3)
                   else s1\<lparr>stabilization_frames := 0, keypoint_stabilized := False\<rparr>)
         in (stabilized_points, s2)))"

section \<open>Geometric transfer\<close>

text \<open>
  A match refers to a feature of the reference image (\<open>queryIdx\<close>) and one of the live frame
  (\<open>trainIdx\<close>); \<open>ref_kp\<close> and \<open>curr_kp\<close> are the positions of the features. An index outside
  the feature list raises \<open>IndexError\<close>. The OpenCV calls \<open>cv2.findHomography\<close> and
  \<open>cv2.perspectiveTransform\<close> are parameters: the first returns a matrix, \<open>None\<close>, or raises;
  the second returns the array of transformed points of a one-point array, or raises.
\<close>

record dmatch =
  queryIdx :: nat
  trainIdx :: nat

type_synonym matrix3 = "(real \<times> real \<times> real) \<times> (real \<times> real \<times> real) \<times> (real \<times> real \<times> real)"

definition det3 :: "matrix3 \<Rightarrow> real" where
  "det3 H =
     (case H of ((a, b, c), (d, e, f), (g, h, i)) \<Rightarrow>
        a * (e * i - f * h) - b * (d * i - f * g) + c * (d * h - e * g))"

definition list_get :: "'a list \<Rightarrow> nat \<Rightarrow> py_error + 'a" where
  "list_get xs i = (if i < length xs then Inr (xs ! i) else Inl IndexError)"

definition matched_points :: "point list \<Rightarrow> nat list \<Rightarrow> py_error + point list" where
  "matched_points kp idxs = sequence_sum (map (list_get kp) idxs)"

definition current_keypoints :: "measurer \<Rightarrow> point list" where
  "current_keypoints s = (if current_side s = Front then keypoints s else back_keypoints s)"

definition transform_point :: "(matrix3 \<Rightarrow> point \<Rightarrow> py_error + point list) \<Rightarrow> matrix3 \<Rightarrow> point
     \<Rightarrow> py_error + point" where
  "transform_point perspectiveTransform H pt =
     (case perspectiveTransform H pt of
        Inl e \<Rightarrow> Inl e
      | Inr dst_point \<Rightarrow>
          (if length dst_point > 0 then Inr (hd dst_point) else Inr (- 1, - 1)))"

definition transfer_with_homography ::
  "(point list \<Rightarrow> point list \<Rightarrow> py_error + matrix3 option)
     \<Rightarrow> (matrix3 \<Rightarrow> point \<Rightarrow> py_error + point list)
     \<Rightarrow> measurer \<Rightarrow> point list \<Rightarrow> point list \<Rightarrow> dmatch list
     \<Rightarrow> matrix3 option \<times> point list" where
  "transfer_with_homography findHomography perspectiveTransform s ref_kp curr_kp matches =
     (if length matches < min_matches s then (None, [])
      else
        case matched_points ref_kp (map queryIdx matches) of
          Inl e \<Rightarrow> (None, [])
        | Inr src_pts \<Rightarrow>
        (case matched_points curr_kp (map trainIdx matches) of
          Inl e \<Rightarrow> (None, [])
        | Inr dst_pts \<Rightarrow>
        (case findHomography src_pts dst_pts of
          Inl e \<Rightarrow> (None, [])
        | Inr None \<Rightarrow> (None, [])
        | Inr (Some H) \<Rightarrow>
            (let det = det3 H
             in if 0.1 < \<bar>det\<bar> \<and> \<bar>det\<bar> < 10.0 then
                  (case sequence_sum
                          (map (transform_point perspectiveTransform H) (current_keypoints s)) of
                     Inl e \<Rightarrow> (None, [])
                   | Inr transformed_points \<Rightarrow> (Some H, transformed_points))
                else (None, [])))))"

text \<open>
  Moving least squares: the weight of a match for a reference keypoint, the three sums of
  the inner loop, and the weighted centroid. \<open>distance ** (2 * alpha)\<close> is taken on a
  distance of at least \<open>1e-6\<close>, where the power of Python is \<open>powr\<close>.
\<close>

definition mls_weight :: "measurer \<Rightarrow> point \<Rightarrow> point \<Rightarrow> real" where
  "mls_weight s ref_point src_match_pt =
     (let distance = sqrt ((fst ref_point - fst src_match_pt)\<^sup>2
                           + (snd ref_point - snd src_match_pt)\<^sup>2)
      in if distance < 1 / 10 ^ 6 then 10 ^ 6 else 1 / (distance powr (2 * alpha s)))"

definition mls_point :: "measurer \<Rightarrow> point list \<Rightarrow> point list \<Rightarrow> point \<Rightarrow> point" where
  "mls_point s src_pts dst_pts ref_point =
     (let weights = map (mls_weight s ref_point) src_pts;
          total_weight = sum_list weights;
          weighted_x = sum_list (map (\<lambda>(weight, dst_match_pt). weight * fst dst_match_pt)
                                    (zip weights dst_pts));
          weighted_y = sum_list (map (\<lambda>(weight, dst_match_pt). weight * snd dst_match_pt)
                                    (zip weights dst_pts))
      in if total_weight > 0 then (weighted_x / total_weight, weighted_y / total_weight)
         else (- 1, - 1))"

definition transfer_with_mls ::
  "measurer \<Rightarrow> point list \<Rightarrow> point list \<Rightarrow> dmatch list \<Rightarrow> matrix3 option \<times> point list" where
  "transfer_with_mls s ref_kp curr_kp matches =
     (if length matches < 4 then (None, [])
      else
        case matched_points ref_kp (map queryIdx matches) of
          Inl e \<Rightarrow> (None, [])
        | Inr src_pts \<Rightarrow>
        (case matched_points curr_kp (map trainIdx matches) of
          Inl e \<Rightarrow> (None, [])
        | Inr dst_pts \<Rightarrow>
            (None, map (mls_point s src_pts dst_pts) (current_keypoints s))))"

text \<open>
  The choice of the feature-based positions inside \<open>transfer_keypoints_robust\<close> (the branch
  on the number of matches and on \<open>transfer_method\<close>).
\<close>

definition feature_points ::
  "(point list \<Rightarrow> point list \<Rightarrow> py_error + matrix3 option)
     \<Rightarrow> (matrix3 \<Rightarrow> point \<Rightarrow> py_error + point list)
     \<Rightarrow> measurer \<Rightarrow> point list \<Rightarrow> point list \<Rightarrow> dmatch list \<Rightarrow> point list" where
  "feature_points findHomography perspectiveTransform s ref_kp curr_kp matches =
     (if length matches \<ge> min_matches s then
        (if length matches \<ge> 20 \<and> transfer_method s \<in> set [Homography, Auto] then
           (let homography_points =
                  snd (transfer_with_homography findHomography perspectiveTransform s
                         ref_kp curr_kp matches)
            in if homography_points \<noteq> [] then homography_points
               else snd (transfer_with_mls s ref_kp curr_kp matches))
         else snd (transfer_with_mls s ref_kp curr_kp matches))
      else replicate (length (current_keypoints s)) (- 1, - 1))"

section \<open>Template matching\<close>

text \<open>
  \<open>int\<close> on a float truncates toward zero. An image enters only through its shape
  \<open>(h, w)\<close>, \<open>None\<close> for a missing image, and through the OpenCV calls \<open>cv2.matchTemplate\<close>
  followed by \<open>cv2.minMaxLoc\<close>, taken together as the parameter \<open>matchTemplate\<close>: given the
  rectangle \<open>(x1, y1, x2, y2)\<close> cut from the live frame, the rectangle cut from the reference
  image and the method, it returns the extreme values and their locations, or raises.
\<close>

definition py_trunc :: "real \<Rightarrow> int" where
  "py_trunc x = (if x \<ge> 0 then \<lfloor>x\<rfloor> else \<lceil>x\<rceil>)"

type_synonym rect = "int \<times> int \<times> int \<times> int"

datatype tm_method = TM_CCOEFF_NORMED | TM_CCORR_NORMED | TM_SQDIFF_NORMED

record minmax =
  min_val :: real
  max_val :: real
  min_loc :: "int \<times> int"
  max_loc :: "int \<times> int"

definition int_point :: "int \<Rightarrow> int \<Rightarrow> point" where
  "int_point x y = (real_of_int x, real_of_int y)"

definition corner_template_rect :: "measurer \<Rightarrow> int \<times> int \<Rightarrow> real \<Rightarrow> point \<Rightarrow> rect" where
  "corner_template_rect s ref_shape scale_factor keypoint =
     (let ref_h = fst ref_shape; ref_w = snd ref_shape;
          x = py_trunc (fst keypoint); y = py_trunc (snd keypoint);
          template_size = py_trunc (real_of_int (corner_template_size s) * scale_factor);
          half_size = template_size div 2;
          x1 = max 0 (x - half_size);
          y1 = max 0 (y - half_size);
          x2 = min ref_w (x + half_size);
          y2 = min ref_h (y + half_size)
      in (x1, y1, x2, y2))"

definition corner_search_rect :: "measurer \<Rightarrow> int \<times> int \<Rightarrow> real \<Rightarrow> point \<Rightarrow> rect" where
  "corner_search_rect s shape scale_factor keypoint =
     (let h = fst shape; w = snd shape;
          x = py_trunc (fst keypoint); y = py_trunc (snd keypoint);
          template_size = py_trunc (real_of_int (corner_template_size s) * scale_factor);
          search_multiplier = 2.5 * scale_factor;
          search_half_size = py_trunc (real_of_int template_size * search_multiplier);
          estimated_x = py_trunc (real_of_int x * scale_factor);
          estimated_y = py_trunc (real_of_int y * scale_factor);
          sx1 = max 0 (estimated_x - search_half_size);
          sy1 = max 0 (estimated_y - search_half_size);
          sx2 = min w (estimated_x + search_half_size);
          sy2 = min h (estimated_y + search_half_size)
      in (sx1, sy1, sx2, sy2))"

text \<open>
  The loop over the two correlation methods: the running best value and location, starting
  from \<open>-1\<close> and \<open>(0, 0)\<close>; an exception of either call leaves the loop.
\<close>

fun best_match ::
  "(rect \<Rightarrow> rect \<Rightarrow> tm_method \<Rightarrow> py_error + minmax) \<Rightarrow> rect \<Rightarrow> rect \<Rightarrow> tm_method list
     \<Rightarrow> real \<times> (int \<times> int) \<Rightarrow> py_error + real \<times> (int \<times> int)" where
  "best_match matchTemplate search_region template [] best = Inr best"
| "best_match matchTemplate search_region template (method # methods) best =
     (case matchTemplate search_region template method of
        Inl e \<Rightarrow> Inl e
      | Inr r \<Rightarrow>
          (let best' =
                 (if method = TM_CCOEFF_NORMED \<or> method = TM_CCORR_NORMED then
                    (if max_val r > fst best then (max_val r, max_loc r) else best)
                  else
                    (if min_val r > fst best then (min_val r, min_loc r) else best))
           in best_match matchTemplate search_region template methods best'))"

definition corner_point ::
  "(rect \<Rightarrow> rect \<Rightarrow> tm_method \<Rightarrow> py_error + minmax) \<Rightarrow> measurer \<Rightarrow> int \<times> int \<Rightarrow> int \<times> int
     \<Rightarrow> real \<Rightarrow> point \<Rightarrow> point" where
  "corner_point matchTemplate s shape ref_shape scale_factor keypoint =
     (case corner_template_rect s ref_shape scale_factor keypoint of (x1, y1, x2, y2) \<Rightarrow>
        if x2 - x1 < 20 \<or> y2 - y1 < 20 then (- 1, - 1)
        else
          (case corner_search_rect s shape scale_factor keypoint of (sx1, sy1, sx2, sy2) \<Rightarrow>
             let template_w = x2 - x1; template_h = y2 - y1
             in if sx2 - sx1 < template_w \<or> sy2 - sy1 < template_h then (- 1, - 1)
                else
                  (case best_match matchTemplate (sx1, sy1, sx2, sy2) (x1, y1, x2, y2)
                          [TM_CCOEFF_NORMED, TM_CCORR_NORMED] (- 1, (0, 0)) of
                     Inl e \<Rightarrow> (- 1, - 1)
                   | Inr (best_match_val, best_match_loc) \<Rightarrow>
                       if best_match_val > corner_matching_threshold s then
                         (let match_x = sx1 + fst best_match_loc + template_w div 2;
                              match_y = sx1 + snd best_match_loc + template_h div 2
                          in int_point match_x match_y)
                       else (- 1, - 1))))"

definition template_match_corners ::
  "(rect \<Rightarrow> rect \<Rightarrow> tm_method \<Rightarrow> py_error + minmax) \<Rightarrow> measurer \<Rightarrow> (int \<times> int) option
     \<Rightarrow> (int \<times> int) option \<Rightarrow> real \<Rightarrow> point list" where
  "template_match_corners matchTemplate s current_gray current_reference_gray scale_factor =
     (case current_reference_gray of
        None \<Rightarrow> []
      | Some ref_shape \<Rightarrow>
          if length (current_keypoints s) = 0 then []
          else
            (case current_gray of
               None \<Rightarrow> []
             | Some shape \<Rightarrow>
                 map (corner_point matchTemplate s shape ref_shape scale_factor)
                   (take (min (corner_keypoints_count s) (length (current_keypoints s)))
                      (current_keypoints s))))"

text \<open>
  The general matcher \<open>template_match_keypoints\<close> computes the position of a match from the
  same quantities; its two lines are kept for comparison with the corner variant.
\<close>

definition keypoint_match_position :: "rect \<Rightarrow> int \<times> int \<Rightarrow> int \<times> int \<Rightarrow> point" where
  "keypoint_match_position search_region template_shape loc =
     (case search_region of (sx1, sy1, sx2, sy2) \<Rightarrow>
        (let match_x = sx1 + fst loc + snd template_shape div 2;
             match_y = sy1 + snd loc + fst template_shape div 2
         in int_point match_x match_y))"

section \<open>Direct placement with local refinement\<close>

definition direct_refine_point ::
  "(rect \<Rightarrow> rect \<Rightarrow> tm_method \<Rightarrow> py_error + minmax) \<Rightarrow> int \<times> int \<Rightarrow> int \<times> int \<Rightarrow> point
     \<Rightarrow> point" where
  "direct_refine_point matchTemplate shape ref_shape kp =
     (let h = fst shape; w = snd shape;
          ref_h = fst ref_shape; ref_w = snd ref_shape;
          x = py_trunc (fst kp); y = py_trunc (snd kp)
      in if x \<le> 0 \<or> y \<le> 0 \<or> x \<ge> w \<or> y \<ge> h then int_point x y
         else
           (let search_radius = 80;
                template_size = 60;
                half_t = template_size div 2;
                ref_y1 = max 0 (y - half_t);
                ref_y2 = min ref_h (y + half_t);
                ref_x1 = max 0 (x - half_t);
                ref_x2 = min ref_w (x + half_t)
            in if ref_x2 - ref_x1 < 20 \<or> ref_y2 - ref_y1 < 20 then int_point x y
               else
                 (let template_w = ref_x2 - ref_x1; template_h = ref_y2 - ref_y1;
                      search_y1 = max 0 (y - search_radius);
                      search_y2 = min h (y + search_radius);
                      search_x1 = max 0 (x - search_radius);
                      search_x2 = min w (x + search_radius)
                  in if search_x2 - search_x1 < template_w \<or> search_y2 - search_y1 < template_h
                     then int_point x y
                     else
                       (case matchTemplate (search_x1, search_y1, search_x2, search_y2)
                               (ref_x1, ref_y1, ref_x2, ref_y2) TM_CCOEFF_NORMED of
                          Inl e \<Rightarrow> int_point x y
                        | Inr r \<Rightarrow>
                            if max_val r > 0.5 then
                              (let refined_x = search_x1 + fst (max_loc r) + template_w div 2;
                                   refined_y = search_y1 + snd (max_loc r) + template_h div 2;
                                   dx = \<bar>refined_x - x\<bar>;
                                   dy = \<bar>refined_y - y\<bar>
                               in if dx < 60 \<and> dy < 60 then int_point refined_x refined_y
                                  else int_point x y)
                            else int_point x y))))"

definition direct_placement_with_refinement ::
  "(rect \<Rightarrow> rect \<Rightarrow> tm_method \<Rightarrow> py_error + minmax) \<Rightarrow> int \<times> int \<Rightarrow> int \<times> int \<Rightarrow> point list
     \<Rightarrow> measurer \<Rightarrow> point list \<times> measurer" where
  "direct_placement_with_refinement matchTemplate shape ref_shape kps s =
     (let refined_points = map (direct_refine_point matchTemplate shape ref_shape) kps
      in stabilize_keypoints refined_points s)"

text \<open>
  The rectangles that \<open>direct_refine_point\<close> hands to the matcher for a keypoint, and the
  result of the matcher there.
\<close>

definition direct_rects :: "int \<times> int \<Rightarrow> int \<times> int \<Rightarrow> point \<Rightarrow> rect \<times> rect" where
  "direct_rects shape ref_shape kp =
     (let h = fst shape; w = snd shape;
          ref_h = fst ref_shape; ref_w = snd ref_shape;
          x = py_trunc (fst kp); y = py_trunc (snd kp)
      in ((max 0 (x - 80), max 0 (y - 80), min w (x + 80), min h (y + 80)),
          (max 0 (x - 30), max 0 (y - 30), min ref_w (x + 30), min ref_h (y + 30))))"

section \<open>Pairing and measuring in the live loop\<close>

text \<open>
  A measurement is the tuple that the loop appends to \<open>current_measurements\<close>:
  \<open>(pair_num, real_distance, pixel_distance, qc_passed, is_fallback)\<close>; older callers pass
  tuples without the last component.
\<close>

datatype measurement =
    Tuple4 int real real bool
  | Tuple5 int real real bool bool


definition tracking_failed :: "point \<Rightarrow> bool" where
  "tracking_failed p = (fst p = - 1 \<or> snd p = - 1)"





section \<open>The live snapshot\<close>

text \<open>
  \<open>round(x, 2)\<close> rounds to the nearest multiple of one hundredth, a tie to the even one.
\<close>

definition round_half_even :: "real \<Rightarrow> int" where
  "round_half_even y =
     (let f = \<lfloor>y\<rfloor>; d = y - real_of_int f
      in if d < 1 / 2 then f else if d > 1 / 2 then f + 1 else if even f then f else f + 1)"

definition py_round2 :: "real \<Rightarrow> real" where
  "py_round2 x = real_of_int (round_half_even (x * 100)) / 100"

record live_record =
  measurement_id :: int
  name :: string
  actual_cm :: real
  pixel_distance :: real
  tolerance_plus :: real
  tolerance_minus :: real
  min_valid :: real
  max_valid :: real
  qc_passed :: bool
  is_fallback :: bool

record live_snapshot =
  snap_timestamp :: string
  snap_annotation_name :: string
  snap_side :: side
  snap_is_calibrated :: bool
  snap_pixels_per_cm :: real
  snap_tolerance_cm :: real
  snap_measurements :: "live_record list"

fun unpack_measurement :: "measurement \<Rightarrow> int \<times> real \<times> real \<times> bool \<times> bool" where
  "unpack_measurement (Tuple5 pair_num real_distance pixel_dist passed fallback) =
     (pair_num, real_distance, pixel_dist, passed, fallback)"
| "unpack_measurement (Tuple4 pair_num real_distance pixel_dist passed) =
     (pair_num, real_distance, pixel_dist, passed, False)"

text \<open>Indexing a Python list: a negative index counts from the end.\<close>

definition py_index :: "'a list \<Rightarrow> int \<Rightarrow> py_error + 'a" where
  "py_index xs i =
     (if 0 \<le> i \<and> i < int (length xs) then Inr (xs ! nat i)
      else if i < 0 \<and> - int (length xs) \<le> i then Inr (xs ! nat (int (length xs) + i))
      else Inl IndexError)"

definition live_record_of :: "string list \<Rightarrow> measurement \<Rightarrow> py_error + live_record" where
  "live_record_of keypoint_names m =
     (case unpack_measurement m of (pair_num, real_distance, pixel_dist, passed, fallback) \<Rightarrow>
        (case (if pair_num \<le> int (length keypoint_names) then py_index keypoint_names (pair_num - 1)
               else Inr (''Measurement '' @ str_int pair_num)) of
           Inl e \<Rightarrow> Inl e
         | Inr nm \<Rightarrow>
             Inr \<lparr>measurement_id = pair_num,
                  name = nm,
                  actual_cm = py_round2 real_distance,
                  pixel_distance = py_round2 pixel_dist,
                  tolerance_plus = 1.0,
                  tolerance_minus = 1.0,
                  min_valid = py_round2 (real_distance - 1.0),
                  max_valid = py_round2 (real_distance + 1.0),
                  qc_passed = passed,
                  is_fallback = fallback\<rparr>))"

text \<open>
  \<open>save_live_measurements\<close> returns its flag and the snapshot it wrote to
  \<open>live_measurements.json\<close>, \<open>None\<close> when an exception kept it from writing. The attributes
  \<open>keypoint_names\<close> and \<open>current_annotation_name\<close> (read with \<open>getattr\<close> and a default) are
  parameters.
\<close>

definition save_live_measurements ::
  "string list \<Rightarrow> string option \<Rightarrow> measurement list \<Rightarrow> string option \<Rightarrow> measurer
     \<Rightarrow> bool \<times> live_snapshot option" where
  "save_live_measurements keypoint_names current_annotation_name measurements annotation_name s =
     (if \<not> fs_writable s then (False, None)
      else
        (case sequence_sum (map (live_record_of keypoint_names) measurements) of
           Inl e \<Rightarrow> (False, None)
         | Inr records \<Rightarrow>
             (True,
              Some \<lparr>snap_timestamp = clock_now s,
                    snap_annotation_name =
                      (case annotation_name of
                         Some n \<Rightarrow> if n \<noteq> [] then n
                                   else (case current_annotation_name of
                                           Some c \<Rightarrow> c | None \<Rightarrow> ''unknown'')
                       | None \<Rightarrow> (case current_annotation_name of
                                     Some c \<Rightarrow> c | None \<Rightarrow> ''unknown'')),
                    snap_side = current_side s,
                    snap_is_calibrated = is_calibrated s,
                    snap_pixels_per_cm = pixels_per_cm s,
                    snap_tolerance_cm = 1.0,
                    snap_measurements = records\<rparr>)))"

section \<open>The object after construction\<close>

text \<open>
  The attribute values set by \<open>__init__\<close>, in an environment without annotation files where
  writing succeeds.
\<close>

definition init_measurer :: measurer where
  "init_measurer =
     \<lparr>keypoints = [],
      back_keypoints = [],
      current_side = Front,
      placement_box = [],
      pixels_per_cm = 0,
      is_calibrated = False,
      min_matches = 15,
      qc_tolerance_cm = 100.0,
      target_distances = [],
      back_target_distances = [],
      qc_results = [],
      keypoint_stabilized = False,
      stabilization_threshold = 17.0,
      last_valid_keypoints = [],
      stabilization_frames = 0,
      transfer_method = Homography,
      alpha = 1.0,
      corner_keypoints_count = 12,
      corner_template_size = 150,
      corner_matching_threshold = 0.6,
      has_reference_image = False,
      has_back_reference_image = False,
      annotation_file = None,
      back_annotation_file = None,
      reference_image_file = False,
      back_reference_image_file = False,
      fs_writable = True,
      imwrite_ok = True,
      clock_now = ''2025-01-01T00:00:00''\<rparr>"

text \<open>The target distances and the annotation file of the side that is being measured.\<close>

definition active_targets :: "measurer \<Rightarrow> (int \<times> real) list" where
  "active_targets s =
     (if current_side s = Front then target_distances s else back_target_distances s)"

definition active_file :: "measurer \<Rightarrow> json option" where
  "active_file s =
     (if current_side s = Front then annotation_file s else back_annotation_file s)"

section \<open>Example inputs\<close>

text \<open>
  Three remembered keypoints on a line, a candidate set in which only the first keypoint
  moved by 50 pixels, and one in which every keypoint moved by the vector \<open>(30, 40)\<close> of
  length 50.
\<close>

definition jump_state :: measurer where
  "jump_state = init_measurer\<lparr>last_valid_keypoints := [(0, 0), (100, 0), (200, 0)]\<rparr>"

definition isolated_jump :: "point list" where
  "isolated_jump = [(50, 0), (100, 0), (200, 0)]"

definition coordinated_jump :: "point list" where
  "coordinated_jump = [(30, 40), (130, 40), (230, 40)]"

text \<open>
  A front side with one keypoint, a match between feature 0 of the reference and feature 0
  of the live frame, and a matrix of determinant 0.
\<close>

definition one_keypoint_state :: measurer where
  "one_keypoint_state = init_measurer\<lparr>keypoints := [(10, 10)]\<rparr>"

definition same_match :: dmatch where
  "same_match = \<lparr>queryIdx = 0, trainIdx = 0\<rparr>"

definition collapsed_H :: matrix3 where
  "collapsed_H = ((0, 0, 0), (0, 0, 0), (0, 0, 1))"




text \<open>
  A front side with one corner keypoint at \<open>(1000, 100)\<close>, and two stand-ins for the
  template matcher that report the best location \<open>(0, 0)\<close> with correlation 0.9 and 0.3.
\<close>

definition corner_state :: measurer where
  "corner_state = init_measurer\<lparr>keypoints := [(1000, 100)]\<rparr>"

definition strong_matcher :: "rect \<Rightarrow> rect \<Rightarrow> tm_method \<Rightarrow> py_error + minmax" where
  "strong_matcher search_region template method =
     Inr \<lparr>min_val = 0, max_val = 0.9, min_loc = (0, 0), max_loc = (0, 0)\<rparr>"

definition weak_matcher :: "rect \<Rightarrow> rect \<Rightarrow> tm_method \<Rightarrow> py_error + minmax" where
  "weak_matcher search_region template method =
     Inr \<lparr>min_val = 0, max_val = 0.3, min_loc = (0, 0), max_loc = (0, 0)\<rparr>"

text \<open>
  The snapshot written for one measurement of 210.004 cm that failed its quality check.
\<close>

definition example_snapshot :: live_snapshot where
  "example_snapshot =
     \<lparr>snap_timestamp = ''2025-01-01T00:00:00'', snap_annotation_name = ''unknown'',
      snap_side = Front, snap_is_calibrated = False, snap_pixels_per_cm = 0,
      snap_tolerance_cm = 1,
      snap_measurements = [\<lparr>measurement_id = 1, name = ''Measurement 1'',
         actual_cm = 210, pixel_distance = 2100.04, tolerance_plus = 1, tolerance_minus = 1,
         min_valid = 209, max_valid = 211, qc_passed = False, is_fallback = False\<rparr>]\<rparr>"

text \<open>
  A front side with two keypoints, two target distances and a placement box; and the
  characters that \<open>str\<close> produces for the digits of an integer.
\<close>

definition annotated_state :: measurer where
  "annotated_state =
     init_measurer\<lparr>keypoints := [(100, 100), (300, 100)],
                    target_distances := [(1, 20.5), (- 12, 3.81)],
                    placement_box := [10, 20, 500, 400],
                    has_reference_image := True\<rparr>"

definition plain_digit :: "char \<Rightarrow> bool" where
  "plain_digit c = (is_digit c \<and> c \<noteq> CHR ''_'' \<and> c \<noteq> CHR ''-'' \<and> c \<noteq> CHR ''+'' \<and> \<not> is_space c)"

text \<open>
  An object after construction that shares nothing with the annotated one but the
  annotation file that it wrote.
\<close>

definition fresh_reader :: measurer where
  "fresh_reader =
     init_measurer\<lparr>annotation_file := annotation_file (snd (save_annotation annotated_state))\<rparr>"

section \<open>Verified properties\<close>

subsection \<open>Quality check\<close>

text \<open>
  Claim C1. For every pair index \<open>p\<close> and measured value \<open>m\<close>: when the active side stores no
  target for \<open>p\<close>, \<open>check_qc\<close> returns PASS and stores \<open>m\<close> as the target of \<open>p\<close>, and, when the
  file can be written, the active annotation file then holds the updated target
  distances; when a target \<open>t\<close> is stored, the answer is PASS exactly if
  \<open>|m - t| \<le> qc_tolerance_cm\<close>, and neither the stored targets nor the file change.
\<close>

theorem check_qc_baseline_then_tolerance:
  "(map_of (active_targets s) p = None \<longrightarrow>
      fst (check_qc p m s) = True
      \<and> map_of (active_targets (snd (check_qc p m s))) p = Some m
      \<and> (fs_writable s \<longrightarrow>
            (\<exists>doc. active_file (snd (check_qc p m s)) = Some doc
               \<and> json_get ''target_distances'' (JObj []) doc
                    = Inr (targets_json (active_targets (snd (check_qc p m s)))))))
   \<and> (\<forall>t. map_of (active_targets s) p = Some t \<longrightarrow>
         fst (check_qc p m s) = (\<bar>m - t\<bar> \<le> qc_tolerance_cm s)
         \<and> active_targets (snd (check_qc p m s)) = active_targets s
         \<and> active_file (snd (check_qc p m s)) = active_file s)"
  by (cases "current_side s")
     (auto simp: check_qc_def active_targets_def active_file_def Let_def save_annotation_def
        save_back_annotation_def save_reference_image_def save_back_reference_image_def
        json_get_def update_conv' split: option.splits)

theorem check_qc_baseline_then_tolerance_witness:
  "map_of (active_targets init_measurer) 1 = None
   \<and> fs_writable init_measurer
   \<and> fst (check_qc 1 200 init_measurer) = True
   \<and> map_of (active_targets (snd (check_qc 1 200 init_measurer))) 1 = Some 200
   \<and> fst (check_qc 1 210 (snd (check_qc 1 200 init_measurer))) = True
   \<and> fst (check_qc 1 210 ((snd (check_qc 1 200 init_measurer))\<lparr>qc_tolerance_cm := 5\<rparr>)) = False"
  using check_qc_baseline_then_tolerance [of init_measurer 1 200]
    check_qc_baseline_then_tolerance [of "snd (check_qc 1 200 init_measurer)" 1 210]
    check_qc_baseline_then_tolerance
      [of "(snd (check_qc 1 200 init_measurer))\<lparr>qc_tolerance_cm := 5\<rparr>" 1 210]
  by (simp add: active_targets_def init_measurer_def check_qc_def Let_def save_annotation_def
        save_reference_image_def)

subsection \<open>Stabilization filter\<close>

text \<open>
  Auxiliary facts: what \<open>check_coordinated_movement\<close> answers when the other keypoints did not
  move and when all keypoints moved by one vector, and what \<open>stabilize_keypoints\<close> returns
  keypoint by keypoint.
\<close>

lemma concat_map_all_nil: "(\<And>x. x \<in> set xs \<Longrightarrow> f x = []) \<Longrightarrow> concat (map f xs) = []"
  by (induction xs) auto

lemma enumerate_zip_index:
  "(i, a, b) \<in> set (enumerate m (zip xs ys)) \<Longrightarrow>
     m \<le> i \<and> i - m < length xs \<and> i - m < length ys \<and> a = xs ! (i - m) \<and> b = ys ! (i - m)"
  by (auto simp: in_set_enumerate_eq)

lemma movement_directions_others_fixed:
  assumes "\<And>j. j < length new \<Longrightarrow> j < length old \<Longrightarrow> j \<noteq> k \<Longrightarrow> new ! j = old ! j"
  shows "movement_directions new old k = []"
  unfolding movement_directions_def
proof (rule concat_map_all_nil)
  fix x assume x: "x \<in> set (enumerate 0 (zip new old))"
  obtain i a b where xe: "x = (i, a, b)" by (cases x) auto
  from x xe have ib: "i < length new" "i < length old" "a = new ! i" "b = old ! i"
    using enumerate_zip_index [of i a b 0 new old] by auto
  show "(case x of (i, new_pt, last_pt) \<Rightarrow>
          if fst new_pt \<noteq> - 1 \<and> fst last_pt \<noteq> - 1 \<and> i \<noteq> k then
            (let dx = fst new_pt - fst last_pt; dy = snd new_pt - snd last_pt;
                 magnitude = sqrt (dx\<^sup>2 + dy\<^sup>2)
             in if magnitude > 5 then [(dx, dy)] else [])
          else []) = []"
  proof (cases "i = k")
    case True then show ?thesis using xe by simp
  next
    case False
    then have "a = b" using ib assms by simp
    then show ?thesis using xe by (simp add: Let_def)
  qed
qed

lemma check_coordinated_others_fixed:
  assumes "\<And>j. j < length new \<Longrightarrow> j < length (last_valid_keypoints s) \<Longrightarrow> j \<noteq> k
             \<Longrightarrow> new ! j = last_valid_keypoints s ! j"
  shows "check_coordinated_movement s new k"
  using movement_directions_others_fixed [of new "last_valid_keypoints s" k] assms
  by (simp add: check_coordinated_movement_def Let_def)

lemma stabilize_point_accept:
  "\<not> tracking_failed q \<Longrightarrow> check_coordinated_movement s new i \<Longrightarrow>
   stabilize_point s new i q l = (q, True)"
  by (simp add: stabilize_point_def tracking_failed_def Let_def)

lemma stabilize_point_same:
  "stabilize_point s new i l l = (l, \<not> tracking_failed l \<and> (0 < stabilization_threshold s \<or> check_coordinated_movement s new i))"
  by (auto simp add: stabilize_point_def tracking_failed_def Let_def)



lemma stabilize_results_all_accepted:
  assumes len: "length old = length new"
    and acc: "\<And>i. i < length new \<Longrightarrow> stabilize_point s new i (new ! i) (old ! i) = (new ! i, True)"
  shows "map (\<lambda>(i, (n, l)). stabilize_point s new i n l) (enumerate 0 (zip new old))
           = map (\<lambda>p. (p, True)) new"
  using len acc by (auto simp: list_eq_iff_nth_eq nth_enumerate_eq)

lemma stabilize_keypoints_all_accepted:
  assumes ne: "last_valid_keypoints s \<noteq> []"
    and len: "length (last_valid_keypoints s) = length new"
    and acc: "\<And>i. i < length new \<Longrightarrow>
                stabilize_point s new i (new ! i) (last_valid_keypoints s ! i) = (new ! i, True)"
  shows "stabilize_keypoints new s =
           (new, s\<lparr>last_valid_keypoints := new,
                     stabilization_frames := stabilization_frames s + 1,
                     keypoint_stabilized := (1 \<le> stabilization_frames s \<or> keypoint_stabilized s)\<rparr>)"
proof -
  have r: "map (\<lambda>(i, (n, l)). stabilize_point s new i n l)
             (enumerate 0 (zip new (last_valid_keypoints s))) = map (\<lambda>p. (p, True)) new"
    using stabilize_results_all_accepted [OF len acc] by simp
  have f: "filter snd (map (\<lambda>p. (p, True)) new) = map (\<lambda>p. (p, True)) new"
    by (induction new) auto
  show ?thesis
    unfolding stabilize_keypoints_def r using ne len
    by (auto simp: Let_def f comp_def)
qed

lemma movement_directions_shift:
  assumes "\<And>j. j < length new \<Longrightarrow> j < length old \<Longrightarrow>
             new ! j = (fst (old ! j) + dx, snd (old ! j) + dy)"
  shows "\<forall>e \<in> set (movement_directions new old k). e = (dx, dy)"
proof
  fix e assume "e \<in> set (movement_directions new old k)"
  then obtain x where x: "x \<in> set (enumerate 0 (zip new old))"
    and e: "e \<in> set (case x of (i, new_pt, last_pt) \<Rightarrow>
          if fst new_pt \<noteq> - 1 \<and> fst last_pt \<noteq> - 1 \<and> i \<noteq> k then
            (let dx = fst new_pt - fst last_pt; dy = snd new_pt - snd last_pt;
                 magnitude = sqrt (dx\<^sup>2 + dy\<^sup>2)
             in if magnitude > 5 then [(dx, dy)] else [])
          else [])"
    unfolding movement_directions_def by auto
  obtain i a b where xe: "x = (i, a, b)" by (cases x) auto
  from x xe have ib: "i < length new" "i < length old" "a = new ! i" "b = old ! i"
    using enumerate_zip_index [of i a b 0 new old] by auto
  then have "a = (fst b + dx, snd b + dy)" using assms by simp
  with e xe show "e = (dx, dy)" by (auto simp: Let_def split: if_splits)
qed

lemma cosine_term_self:
  assumes p: "sqrt (dx\<^sup>2 + dy\<^sup>2) > 0"
  shows "cosine_term dx dy (dx, dy) = 1"
proof -
  define m where "m = sqrt (dx\<^sup>2 + dy\<^sup>2)"
  have mm: "m * m = dx * dx + dy * dy"
    unfolding m_def by (simp add: power2_eq_square)
  have m0: "m > 0" using p m_def by simp
  then have nz: "m * m \<noteq> 0" by simp
  have "(dx * dx + dy * dy) / (m * m) = (m * m) / (m * m)" by (simp only: mm)
  also have "\<dots> = 1" using nz by (rule divide_self)
  finally have one: "(dx * dx + dy * dy) / (m * m) = 1" .
  have "cosine_term dx dy (dx, dy) = (if m > 0 then (dx * dx + dy * dy) / (m * m) else 0)"
    unfolding cosine_term_def m_def by (simp add: Let_def)
  also have "\<dots> = 1" using m0 one by (simp only: if_True)
  finally show ?thesis .
qed

lemma check_coordinated_shift:
  assumes sh: "\<And>j. j < length new \<Longrightarrow> j < length (last_valid_keypoints s) \<Longrightarrow>
             new ! j = (fst (last_valid_keypoints s ! j) + dx, snd (last_valid_keypoints s ! j) + dy)"
    and pos: "sqrt (dx\<^sup>2 + dy\<^sup>2) > 0"
  shows "check_coordinated_movement s new k"
proof -
  define dirs where "dirs = movement_directions new (last_valid_keypoints s) k"
  define n where "n = length dirs"
  have "\<forall>e \<in> set dirs. e = (dx, dy)"
    unfolding dirs_def using movement_directions_shift [of new "last_valid_keypoints s" dx dy k] sh
    by blast
  then have rep: "dirs = replicate n (dx, dy)"
    unfolding n_def by (simp add: replicate_length_same)
  have big: "2 \<le> n \<Longrightarrow>
        sum_list (map (cosine_term (np_mean (map fst dirs)) (np_mean (map snd dirs))) dirs)
          / real (length dirs) > 0.7"
  proof -
    assume n2: "2 \<le> n"
    have m1: "np_mean (map fst dirs) = dx" using n2 by (subst rep) (simp add: np_mean_def sum_list_replicate)
    have m2: "np_mean (map snd dirs) = dy" using n2 by (subst rep) (simp add: np_mean_def sum_list_replicate)
    have "sum_list (map (cosine_term dx dy) dirs) = real n"
      by (subst rep) (simp add: sum_list_replicate cosine_term_self [OF pos])
    moreover have "dirs \<noteq> []" using n2 n_def by auto
    ultimately show ?thesis using n2 m1 m2 n_def by simp
  qed
  show ?thesis
    using big unfolding check_coordinated_movement_def Let_def dirs_def [symmetric] n_def
    by auto
qed

lemma stabilize_keypoints_nth:
  assumes ne: "last_valid_keypoints s \<noteq> []"
    and len: "length (last_valid_keypoints s) = length new"
    and k: "k < length new"
  shows "fst (stabilize_keypoints new s) ! k
           = fst (stabilize_point s new k (new ! k) (last_valid_keypoints s ! k))"
  using ne len k
  by (simp add: stabilize_keypoints_def Let_def nth_enumerate_eq)

text \<open>
  Claim C8. From a state whose remembered positions are the non-empty candidate set, all
  candidates valid, each of two consecutive calls of \<open>stabilize_keypoints\<close> with that set adds
  one to \<open>stabilization_frames\<close>, and after the second call \<open>keypoint_stabilized\<close> holds.
\<close>

theorem identical_frames_stabilize:
  assumes ne: "kps \<noteq> []" and lv: "last_valid_keypoints s = kps"
    and valid: "\<forall>p \<in> set kps. \<not> tracking_failed p"
  shows "stabilization_frames (snd (stabilize_keypoints kps s)) = stabilization_frames s + 1
    \<and> stabilization_frames (snd (stabilize_keypoints kps (snd (stabilize_keypoints kps s))))
        = stabilization_frames s + 2
    \<and> keypoint_stabilized (snd (stabilize_keypoints kps (snd (stabilize_keypoints kps s))))"
proof -
  have step: "stabilize_keypoints kps t =
           (kps, t\<lparr>last_valid_keypoints := kps,
                     stabilization_frames := stabilization_frames t + 1,
                     keypoint_stabilized := (1 \<le> stabilization_frames t \<or> keypoint_stabilized t)\<rparr>)"
    if t: "last_valid_keypoints t = kps" for t
  proof (rule stabilize_keypoints_all_accepted)
    show "last_valid_keypoints t \<noteq> []" using t ne by simp
    show "length (last_valid_keypoints t) = length kps" using t by simp
    fix i assume i: "i < length kps"
    have "check_coordinated_movement t kps i"
      by (rule check_coordinated_others_fixed) (simp add: t)
    moreover have "\<not> tracking_failed (kps ! i)" using valid i by simp
    ultimately show "stabilize_point t kps i (kps ! i) (last_valid_keypoints t ! i) = (kps ! i, True)"
      by (rule stabilize_point_accept [rotated])
  qed
  show ?thesis
    by (simp add: step [OF lv] step)
qed

theorem identical_frames_stabilize_witness:
  "isolated_jump \<noteq> []
   \<and> last_valid_keypoints (init_measurer\<lparr>last_valid_keypoints := isolated_jump\<rparr>) = isolated_jump
   \<and> \<not> tracking_failed (isolated_jump ! 0)
   \<and> \<not> tracking_failed (isolated_jump ! 1)
   \<and> \<not> tracking_failed (isolated_jump ! 2)
   \<and> keypoint_stabilized (snd (stabilize_keypoints isolated_jump
        (snd (stabilize_keypoints isolated_jump (init_measurer\<lparr>last_valid_keypoints := isolated_jump\<rparr>)))))"
  using identical_frames_stabilize [of isolated_jump "init_measurer\<lparr>last_valid_keypoints := isolated_jump\<rparr>"]
  by (simp add: isolated_jump_def tracking_failed_def)

text \<open>
  Claim C2, as the code has it. With remembered positions of the same number as the
  candidates: a valid candidate (neither coordinate \<open>-1\<close>) that lies 50 pixels from its
  remembered position while every other candidate equals its remembered position is
  accepted, the new position is kept; and when every candidate is valid and lies at its
  remembered position moved by one vector of length 50, every new position is kept.
\<close>

theorem jump_with_valid_candidates_accepted:
  assumes ne: "last_valid_keypoints s \<noteq> []"
    and len: "length new = length (last_valid_keypoints s)"
  shows "(\<forall>k < length new.
            (\<forall>j < length new. j \<noteq> k \<longrightarrow> new ! j = last_valid_keypoints s ! j)
            \<and> sqrt ((fst (new ! k) - fst (last_valid_keypoints s ! k))\<^sup>2
                    + (snd (new ! k) - snd (last_valid_keypoints s ! k))\<^sup>2) = 50
            \<and> \<not> tracking_failed (new ! k)
            \<longrightarrow> fst (stabilize_keypoints new s) ! k = new ! k)
       \<and> (\<forall>dx dy.
            sqrt (dx\<^sup>2 + dy\<^sup>2) = 50
            \<and> (\<forall>j < length new.
                  new ! j = (fst (last_valid_keypoints s ! j) + dx, snd (last_valid_keypoints s ! j) + dy)
                  \<and> \<not> tracking_failed (new ! j))
            \<longrightarrow> fst (stabilize_keypoints new s) = new)"
proof (intro conjI allI impI)
  fix k assume k: "k < length new"
    and h: "(\<forall>j < length new. j \<noteq> k \<longrightarrow> new ! j = last_valid_keypoints s ! j)
            \<and> sqrt ((fst (new ! k) - fst (last_valid_keypoints s ! k))\<^sup>2
                    + (snd (new ! k) - snd (last_valid_keypoints s ! k))\<^sup>2) = 50
            \<and> \<not> tracking_failed (new ! k)"
  have "check_coordinated_movement s new k"
    by (rule check_coordinated_others_fixed) (use h in simp)
  moreover have "\<not> tracking_failed (new ! k)" using h by blast
  ultimately have "stabilize_point s new k (new ! k) (last_valid_keypoints s ! k) = (new ! k, True)"
    by (rule stabilize_point_accept [rotated])
  then show "fst (stabilize_keypoints new s) ! k = new ! k"
    using stabilize_keypoints_nth [OF ne len [symmetric] k] by simp
next
  fix dx dy
  assume h: "sqrt (dx\<^sup>2 + dy\<^sup>2) = 50
            \<and> (\<forall>j < length new.
                  new ! j = (fst (last_valid_keypoints s ! j) + dx, snd (last_valid_keypoints s ! j) + dy)
                  \<and> \<not> tracking_failed (new ! j))"
  have acc: "stabilize_point s new i (new ! i) (last_valid_keypoints s ! i) = (new ! i, True)"
    if i: "i < length new" for i
  proof -
    have cc: "check_coordinated_movement s new i"
      by (rule check_coordinated_shift [where dx = dx and dy = dy]) (use h in simp_all)
    have nt: "\<not> tracking_failed (new ! i)" using h i by blast
    show ?thesis by (rule stabilize_point_accept [OF nt cc])
  qed
  show "fst (stabilize_keypoints new s) = new"
    using stabilize_keypoints_all_accepted [OF ne len [symmetric] acc] by simp
qed

theorem jump_with_valid_candidates_accepted_witness:
  "last_valid_keypoints jump_state \<noteq> []
   \<and> length isolated_jump = length (last_valid_keypoints jump_state)
   \<and> fst (stabilize_keypoints isolated_jump jump_state) ! 0 = (50, 0)
   \<and> length coordinated_jump = length (last_valid_keypoints jump_state)
   \<and> sqrt (30\<^sup>2 + 40\<^sup>2) = (50 :: real)
   \<and> fst (stabilize_keypoints coordinated_jump jump_state) = [(30, 40), (130, 40), (230, 40)]"
proof -
  have ne: "last_valid_keypoints jump_state \<noteq> []" by (simp add: jump_state_def)
  have len1: "length isolated_jump = length (last_valid_keypoints jump_state)"
    by (simp add: jump_state_def isolated_jump_def)
  have len2: "length coordinated_jump = length (last_valid_keypoints jump_state)"
    by (simp add: jump_state_def coordinated_jump_def)
  have a: "fst (stabilize_keypoints isolated_jump jump_state) ! 0 = (50, 0)"
    using jump_with_valid_candidates_accepted [OF ne len1, THEN conjunct1, rule_format, of 0]
    by (simp add: jump_state_def isolated_jump_def tracking_failed_def nth_Cons split: nat.splits)
  have b: "fst (stabilize_keypoints coordinated_jump jump_state) = [(30, 40), (130, 40), (230, 40)]"
    using jump_with_valid_candidates_accepted [OF ne len2, THEN conjunct2, rule_format, of 30 40]
    by (simp add: jump_state_def coordinated_jump_def tracking_failed_def numeral_3_eq_3 less_Suc_eq)
  show ?thesis using ne len1 len2 a b by simp
qed

text \<open>
  The claim C2 as stated says that the isolated jump is rejected. At the example input the
  first keypoint alone moved by 50 pixels, and the filter returns the new position, not the
  remembered one.
\<close>

theorem isolated_jump_not_rejected:
  "isolated_jump ! 1 = last_valid_keypoints jump_state ! 1
   \<and> isolated_jump ! 2 = last_valid_keypoints jump_state ! 2
   \<and> sqrt ((fst (isolated_jump ! 0) - fst (last_valid_keypoints jump_state ! 0))\<^sup>2
           + (snd (isolated_jump ! 0) - snd (last_valid_keypoints jump_state ! 0))\<^sup>2) = 50
   \<and> fst (stabilize_keypoints isolated_jump jump_state) ! 0 \<noteq> last_valid_keypoints jump_state ! 0"
proof -
  have ne: "last_valid_keypoints jump_state \<noteq> []" by (simp add: jump_state_def)
  have len: "length (last_valid_keypoints jump_state) = length isolated_jump"
    by (simp add: jump_state_def isolated_jump_def)
  have "check_coordinated_movement jump_state isolated_jump 0"
    by (rule check_coordinated_others_fixed)
       (auto simp: jump_state_def isolated_jump_def nth_Cons split: nat.splits)
  then have "stabilize_point jump_state isolated_jump 0 (isolated_jump ! 0)
               (last_valid_keypoints jump_state ! 0) = (isolated_jump ! 0, True)"
    by (simp add: stabilize_point_accept tracking_failed_def isolated_jump_def)
  then have "fst (stabilize_keypoints isolated_jump jump_state) ! 0 = isolated_jump ! 0"
    using stabilize_keypoints_nth [OF ne len, of 0] by (simp add: isolated_jump_def)
  then show ?thesis
    by (simp add: jump_state_def isolated_jump_def)
qed

subsection \<open>Geometric transfer\<close>

lemma sequence_sum_Inr: "sequence_sum (map (\<lambda>x. Inr (f x)) xs) = Inr (map f xs)"
  by (induction xs) auto

lemma matched_points_in_range:
  "\<forall>i \<in> set idxs. i < length kp \<Longrightarrow> matched_points kp idxs = Inr (map ((!) kp) idxs)"
  unfolding matched_points_def by (induction idxs) (auto simp: list_get_def)

text \<open>
  Claim C3. Whatever the matches: when the homography fitted to them has a determinant of
  absolute value at most 0.1 or at least 10, \<open>transfer_with_homography\<close> returns no matrix and
  an empty point list, whatever \<open>cv2.perspectiveTransform\<close> would compute, and the feature
  positions chosen by the per-frame transfer are those of \<open>transfer_with_mls\<close>.
\<close>

theorem degenerate_homography_falls_back_to_mls:
  assumes src: "matched_points ref_kp (map queryIdx matches) = Inr src_pts"
    and dst: "matched_points curr_kp (map trainIdx matches) = Inr dst_pts"
    and fit: "findHomography src_pts dst_pts = Inr (Some H)"
    and det: "\<bar>det3 H\<bar> \<le> 0.1 \<or> \<bar>det3 H\<bar> \<ge> 10.0"
  shows "transfer_with_homography findHomography perspectiveTransform s ref_kp curr_kp matches
           = (None, [])
         \<and> (length matches \<ge> min_matches s \<longrightarrow>
              feature_points findHomography perspectiveTransform s ref_kp curr_kp matches
                = snd (transfer_with_mls s ref_kp curr_kp matches))"
proof -
  have h: "transfer_with_homography findHomography perspectiveTransform s ref_kp curr_kp matches
           = (None, [])"
    using src dst fit det by (auto simp: transfer_with_homography_def Let_def)
  then show ?thesis by (simp add: feature_points_def Let_def)
qed

theorem degenerate_homography_falls_back_to_mls_witness:
  "matched_points [(10, 10)] (map queryIdx (replicate 20 same_match)) = Inr (replicate 20 (10, 10))
   \<and> matched_points [(15, 12)] (map trainIdx (replicate 20 same_match)) = Inr (replicate 20 (15, 12))
   \<and> \<bar>det3 collapsed_H\<bar> \<le> 0.1
   \<and> transfer_with_homography (\<lambda>src dst. Inr (Some collapsed_H)) (\<lambda>H p. Inr [p])
        one_keypoint_state [(10, 10)] [(15, 12)] (replicate 20 same_match) = (None, [])
   \<and> feature_points (\<lambda>src dst. Inr (Some collapsed_H)) (\<lambda>H p. Inr [p])
        one_keypoint_state [(10, 10)] [(15, 12)] (replicate 20 same_match)
      = snd (transfer_with_mls one_keypoint_state [(10, 10)] [(15, 12)] (replicate 20 same_match))"
proof -
  have a: "matched_points [(10, 10)] (map queryIdx (replicate 20 same_match))
             = Inr (replicate 20 (10, 10 :: real))"
    using matched_points_in_range [of "map queryIdx (replicate 20 same_match)" "[(10, 10 :: real)]"]
    by (simp add: same_match_def)
  have b: "matched_points [(15, 12)] (map trainIdx (replicate 20 same_match))
             = Inr (replicate 20 (15, 12 :: real))"
    using matched_points_in_range [of "map trainIdx (replicate 20 same_match)" "[(15, 12 :: real)]"]
    by (simp add: same_match_def)
  have d: "\<bar>det3 collapsed_H\<bar> \<le> 0.1" by (simp add: det3_def collapsed_H_def)
  have m: "min_matches one_keypoint_state \<le> length (replicate 20 same_match)"
    by (simp add: one_keypoint_state_def init_measurer_def)
  show ?thesis
    using degenerate_homography_falls_back_to_mls [of "[(10, 10)]" "replicate 20 same_match" "replicate 20 (10, 10)" "[(15, 12)]"
               "replicate 20 (15, 12)" "\<lambda>src dst. Inr (Some collapsed_H)" collapsed_H
               "\<lambda>H p. Inr [p]" one_keypoint_state, OF a b refl] a b d m
    by simp
qed

text \<open>
  Every weight of the moving least squares transfer is positive, so matches that share one
  destination give that destination.
\<close>

lemma mls_weight_pos: "mls_weight s p q > 0"
proof -
  define dist where "dist = sqrt ((fst p - fst q)\<^sup>2 + (snd p - snd q)\<^sup>2)"
  have w: "mls_weight s p q = (if dist < 1 / 10 ^ 6 then 10 ^ 6 else 1 / (dist powr (2 * alpha s)))"
    unfolding mls_weight_def Let_def dist_def ..
  show ?thesis
  proof (cases "dist < 1 / 10 ^ 6")
    case True
    then show ?thesis unfolding w by simp
  next
    case False
    then have "dist > 0" by (simp add: not_less)
    then have "dist powr (2 * alpha s) > 0" by simp
    then show ?thesis unfolding w using False by simp
  qed
qed

lemma weighted_sum_same:
  "length ws = length ds \<Longrightarrow> \<forall>d \<in> set ds. f d = c \<Longrightarrow>
   sum_list (map (\<lambda>(w, d). w * f d) (zip ws ds)) = sum_list ws * (c :: real)"
proof (induction ws ds rule: list_induct2)
  case Nil then show ?case by simp
next
  case (Cons w ws d ds) then show ?case by (simp add: algebra_simps)
qed

lemma sum_list_pos_real: "xs \<noteq> [] \<Longrightarrow> \<forall>x \<in> set xs. (0::real) < x \<Longrightarrow> 0 < sum_list xs"
  by (induction xs) (auto intro: add_pos_nonneg sum_list_nonneg less_imp_le)

lemma mls_point_same_destination:
  assumes ne: "src_pts \<noteq> []" and len: "length src_pts = length dst_pts"
    and same: "\<forall>q \<in> set dst_pts. q = d"
  shows "mls_point s src_pts dst_pts p = d"
proof -
  define ws where "ws = map (mls_weight s p) src_pts"
  have wl: "length ws = length dst_pts" using len ws_def by simp
  have pos: "0 < sum_list ws"
    unfolding ws_def using ne by (intro sum_list_pos_real) (auto simp: mls_weight_pos)
  have x: "sum_list (map (\<lambda>(w, q). w * fst q) (zip ws dst_pts)) = sum_list ws * fst d"
    using weighted_sum_same [OF wl, of fst "fst d"] same by simp
  have y: "sum_list (map (\<lambda>(w, q). w * snd q) (zip ws dst_pts)) = sum_list ws * snd d"
    using weighted_sum_same [OF wl, of snd "snd d"] same by simp
  show ?thesis
    unfolding mls_point_def Let_def ws_def [symmetric] x y using pos by simp
qed

text \<open>
  Claim C6, as the code has it. With fewer than four matches, a single match included,
  \<open>transfer_with_mls\<close> returns an empty list. With at least four matches whose source points
  all lie at distance zero from a reference keypoint and whose destination is one point,
  the transferred position of that keypoint is that destination.
\<close>

theorem mls_four_coinciding_matches:
  "(length matches < 4 \<longrightarrow> transfer_with_mls s ref_kp curr_kp matches = (None, []))
   \<and> (4 \<le> length matches \<and> k < length (current_keypoints s)
       \<and> (\<forall>m \<in> set matches.
             queryIdx m < length ref_kp \<and> trainIdx m < length curr_kp
             \<and> sqrt ((fst (current_keypoints s ! k) - fst (ref_kp ! queryIdx m))\<^sup>2
                     + (snd (current_keypoints s ! k) - snd (ref_kp ! queryIdx m))\<^sup>2) = 0
             \<and> curr_kp ! trainIdx m = d)
       \<longrightarrow> snd (transfer_with_mls s ref_kp curr_kp matches) ! k = d)"
proof (intro conjI impI)
  assume "length matches < 4"
  then show "transfer_with_mls s ref_kp curr_kp matches = (None, [])"
    by (simp add: transfer_with_mls_def)
next
  assume h: "4 \<le> length matches \<and> k < length (current_keypoints s)
       \<and> (\<forall>m \<in> set matches.
             queryIdx m < length ref_kp \<and> trainIdx m < length curr_kp
             \<and> sqrt ((fst (current_keypoints s ! k) - fst (ref_kp ! queryIdx m))\<^sup>2
                     + (snd (current_keypoints s ! k) - snd (ref_kp ! queryIdx m))\<^sup>2) = 0
             \<and> curr_kp ! trainIdx m = d)"
  have s: "matched_points ref_kp (map queryIdx matches) = Inr (map ((!) ref_kp) (map queryIdx matches))"
    by (rule matched_points_in_range) (use h in auto)
  have t: "matched_points curr_kp (map trainIdx matches) = Inr (map ((!) curr_kp) (map trainIdx matches))"
    by (rule matched_points_in_range) (use h in auto)
  have ne: "matches \<noteq> []" using h by auto
  have "mls_point s (map ((!) ref_kp) (map queryIdx matches)) (map ((!) curr_kp) (map trainIdx matches))
          (current_keypoints s ! k) = d"
    by (rule mls_point_same_destination) (use h ne in auto)
  then show "snd (transfer_with_mls s ref_kp curr_kp matches) ! k = d"
    using h s t by (simp add: transfer_with_mls_def)
qed

theorem mls_four_coinciding_matches_witness:
  "transfer_with_mls one_keypoint_state [(10, 10)] [(15, 12)] [same_match] = (None, [])
   \<and> snd (transfer_with_mls one_keypoint_state [(10, 10)] [(15, 12)] (replicate 4 same_match)) ! 0
       = (15, 12)"
  using mls_four_coinciding_matches [of "[same_match]" one_keypoint_state "[(10, 10)]" "[(15, 12)]" 0 "(15, 12)"]
    mls_four_coinciding_matches [of "replicate 4 same_match" one_keypoint_state "[(10, 10)]" "[(15, 12)]" 0 "(15, 12)"]
  by (simp add: one_keypoint_state_def init_measurer_def current_keypoints_def same_match_def)

text \<open>
  The claim C6 as stated is about a single match. With the single match of the example,
  whose source is the keypoint itself, no position is returned at all.
\<close>

theorem mls_single_match_yields_nothing:
  "current_keypoints one_keypoint_state ! 0 = [(10, 10)] ! queryIdx same_match
   \<and> snd (transfer_with_mls one_keypoint_state [(10, 10)] [(15, 12)] [same_match]) = []"
  by (simp add: transfer_with_mls_def one_keypoint_state_def init_measurer_def
        current_keypoints_def same_match_def)

subsection \<open>Pairing in the live loop\<close>









lemma map_filter_Cons_None: "f x = None \<Longrightarrow> List.map_filter f (x # xs) = List.map_filter f xs"
  by (simp add: List.map_filter_def)

lemma map_filter_Cons_Some: "f x = Some y \<Longrightarrow> List.map_filter f (x # xs) = y # List.map_filter f xs"
  by (simp add: List.map_filter_def)








subsection \<open>Corner template matching\<close>

text \<open>
  Claim C7 says that every position returned by \<open>template_match_corners\<close> lies inside the
  window it searched. The code computes \<open>match_y\<close> from \<open>sx1\<close>, the left edge of the window,
  where the general matcher uses \<open>sy1\<close>, its top edge. For the keypoint \<open>(1000, 100)\<close> in a
  frame of 2000 by 2000 pixels the window is \<open>[625, 1375] \<times> [0, 475]\<close>; a best match at the
  window's origin is returned as \<open>(700, 700)\<close>, below the window, where the general matcher's
  formula gives \<open>(700, 75)\<close>.
\<close>

theorem corner_match_outside_search_window:
  "template_match_corners strong_matcher corner_state (Some (2000, 2000)) (Some (2000, 2000)) 1
     = [(700, 700)]
   \<and> corner_search_rect corner_state (2000, 2000) 1 (1000, 100) = (625, 0, 1375, 475)
   \<and> keypoint_match_position (625, 0, 1375, 475) (150, 150) (0, 0) = (700, 75)"
  by (simp add: template_match_corners_def corner_state_def init_measurer_def current_keypoints_def
        corner_point_def corner_template_rect_def corner_search_rect_def py_trunc_def Let_def
        strong_matcher_def int_point_def keypoint_match_position_def)

subsection \<open>Direct placement\<close>

text \<open>
  Claim C5, as the code has it. When the matcher, called on the rectangles of a keypoint,
  reports a correlation of at most 0.5, the position appended for the keypoint is its
  annotation coordinate truncated to integers by \<open>int\<close>; and a position other than the
  truncated coordinate is appended only when the matcher reported a correlation above 0.5
  and the position is less than 60 pixels from the truncated coordinate on both axes.
\<close>

theorem direct_refinement_keeps_truncated_annotation:
  "(\<forall>r. matchTemplate (fst (direct_rects shape ref_shape kp)) (snd (direct_rects shape ref_shape kp))
            TM_CCOEFF_NORMED = Inr r
         \<and> max_val r \<le> 0.5
         \<longrightarrow> direct_refine_point matchTemplate shape ref_shape kp
               = int_point (py_trunc (fst kp)) (py_trunc (snd kp)))
   \<and> (direct_refine_point matchTemplate shape ref_shape kp
         \<noteq> int_point (py_trunc (fst kp)) (py_trunc (snd kp))
       \<longrightarrow> (\<exists>r rx ry.
              matchTemplate (fst (direct_rects shape ref_shape kp))
                (snd (direct_rects shape ref_shape kp)) TM_CCOEFF_NORMED = Inr r
              \<and> max_val r > 0.5
              \<and> direct_refine_point matchTemplate shape ref_shape kp = int_point rx ry
              \<and> \<bar>rx - py_trunc (fst kp)\<bar> < 60 \<and> \<bar>ry - py_trunc (snd kp)\<bar> < 60))"
  by (auto simp: direct_refine_point_def direct_rects_def Let_def split: sum.splits if_splits)

theorem direct_refinement_keeps_truncated_annotation_witness:
  "direct_refine_point weak_matcher (1000, 1000) (1000, 1000) (100.5, 100.5) = (100, 100)
   \<and> direct_refine_point strong_matcher (1000, 1000) (1000, 1000) (100, 100) = (50, 50)"
  using direct_refinement_keeps_truncated_annotation [of weak_matcher "(1000, 1000)" "(1000, 1000)" "(100.5, 100.5)"]
    direct_refinement_keeps_truncated_annotation [of strong_matcher "(1000, 1000)" "(1000, 1000)" "(100, 100)"]
  by (simp add: direct_refine_point_def weak_matcher_def strong_matcher_def py_trunc_def Let_def int_point_def direct_rects_def)

text \<open>
  The claim C5 as stated says that the raw coordinate is appended unchanged. For the
  annotation coordinate \<open>(100.5, 100.5)\<close> and a correlation of 0.3 the appended position is
  \<open>(100, 100)\<close>.
\<close>

theorem direct_refinement_truncates_annotation:
  "weak_matcher (fst (direct_rects (1000, 1000) (1000, 1000) (100.5, 100.5)))
       (snd (direct_rects (1000, 1000) (1000, 1000) (100.5, 100.5))) TM_CCOEFF_NORMED
     = Inr \<lparr>min_val = 0, max_val = 0.3, min_loc = (0, 0), max_loc = (0, 0)\<rparr>
   \<and> direct_refine_point weak_matcher (1000, 1000) (1000, 1000) (100.5, 100.5) = (100, 100)
   \<and> direct_refine_point weak_matcher (1000, 1000) (1000, 1000) (100.5, 100.5) \<noteq> (100.5, 100.5)"
  by (simp add: direct_refine_point_def weak_matcher_def py_trunc_def Let_def int_point_def)

subsection \<open>Live snapshot\<close>

text \<open>
  Rounding to two decimals moves a value by at most half a hundredth and commutes with
  adding or subtracting 1.
\<close>

lemma round_half_even_bounds:
  "real_of_int (round_half_even y) \<le> y + 1 / 2 \<and> y - 1 / 2 \<le> real_of_int (round_half_even y)"
proof -
  define f where "f = \<lfloor>y\<rfloor>"
  have fl: "real_of_int f \<le> y" "y < real_of_int f + 1" unfolding f_def by linarith+
  have r: "round_half_even y =
      (if y - real_of_int f < 1 / 2 then f else if y - real_of_int f > 1 / 2 then f + 1
       else if even f then f else f + 1)"
    unfolding round_half_even_def Let_def f_def ..
  show ?thesis
  proof (cases "y - real_of_int f < 1 / 2")
    case True
    then show ?thesis using fl r by simp
  next
    case False
    then have "real_of_int (round_half_even y) = real_of_int f \<and> y - real_of_int f = 1 / 2
        \<or> real_of_int (round_half_even y) = real_of_int f + 1"
      using r by (auto split: if_splits)
    then show ?thesis using fl False by linarith
  qed
qed

lemma round_half_even_shift:
  assumes "even k"
  shows "round_half_even (y + real_of_int k) = round_half_even y + k"
proof -
  have f: "\<lfloor>y + real_of_int k\<rfloor> = \<lfloor>y\<rfloor> + k" by simp
  show ?thesis
    unfolding round_half_even_def Let_def f using assms by auto
qed

lemma py_round2_minus_one: "py_round2 (x - 1) = py_round2 x - 1"
proof -
  have "(x - 1) * 100 = x * 100 + real_of_int (- 100)" by simp
  then have "round_half_even ((x - 1) * 100) = round_half_even (x * 100) + (- 100)"
    using round_half_even_shift [of "- 100" "x * 100"] by simp
  then show ?thesis by (simp add: py_round2_def diff_divide_distrib)
qed

lemma py_round2_plus_one: "py_round2 (x + 1) = py_round2 x + 1"
proof -
  have "(x + 1) * 100 = x * 100 + real_of_int 100" by simp
  then have "round_half_even ((x + 1) * 100) = round_half_even (x * 100) + 100"
    using round_half_even_shift [of 100 "x * 100"] by simp
  then show ?thesis by (simp add: py_round2_def add_divide_distrib)
qed

lemma py_round2_close: "py_round2 x \<le> x + 1 / 200 \<and> x - 1 / 200 \<le> py_round2 x"
proof -
  define r where "r = real_of_int (round_half_even (x * 100))"
  have b: "r \<le> x * 100 + 1 / 2" "x * 100 - 1 / 2 \<le> r"
    unfolding r_def using round_half_even_bounds [of "x * 100"] by auto
  have p: "py_round2 x = r / 100" by (simp add: py_round2_def r_def)
  show ?thesis unfolding p using b by linarith
qed

lemma sequence_sum_nth:
  "sequence_sum rs = Inr xs \<Longrightarrow> length xs = length rs \<and> (\<forall>i < length rs. rs ! i = Inr (xs ! i))"
proof (induction rs arbitrary: xs)
  case Nil
  then show ?case by simp
next
  case (Cons r rs)
  then show ?case
    by (auto split: sum.splits simp: nth_Cons split: nat.splits)
qed

lemma live_record_of_bounds:
  assumes "live_record_of names m = Inr r"
  shows "min_valid r = py_round2 (fst (snd (unpack_measurement m)) - 1.0)
       \<and> max_valid r = py_round2 (fst (snd (unpack_measurement m)) + 1.0)
       \<and> actual_cm r = py_round2 (fst (snd (unpack_measurement m)))
       \<and> qc_passed r = fst (snd (snd (snd (unpack_measurement m))))"
  using assms
  by (cases "unpack_measurement m") (auto simp: live_record_of_def split: sum.splits if_splits)

text \<open>
  Claim C10. In every record of a snapshot that \<open>save_live_measurements\<close> writes,
  \<open>min_valid\<close> is \<open>round(measured - 1.0, 2)\<close> and \<open>max_valid\<close> is \<open>round(measured + 1.0, 2)\<close> for
  the measured value of the measurement at the same position; the measured value and the
  reported \<open>actual_cm\<close> lie between the two, whatever the \<open>qc_passed\<close> flag, which is copied
  from the measurement; and the snapshot is the same for any stored targets and any quality
  check tolerance.
\<close>

theorem reported_bounds_around_measured_value:
  assumes "save_live_measurements keypoint_names current_annotation_name measurements
             annotation_name s = (ok, Some snap)"
  shows "length (snap_measurements snap) = length measurements
     \<and> (\<forall>i < length measurements.
          min_valid (snap_measurements snap ! i)
            = py_round2 (fst (snd (unpack_measurement (measurements ! i))) - 1.0)
          \<and> max_valid (snap_measurements snap ! i)
            = py_round2 (fst (snd (unpack_measurement (measurements ! i))) + 1.0)
          \<and> min_valid (snap_measurements snap ! i) \<le> fst (snd (unpack_measurement (measurements ! i)))
          \<and> fst (snd (unpack_measurement (measurements ! i))) \<le> max_valid (snap_measurements snap ! i)
          \<and> min_valid (snap_measurements snap ! i) \<le> actual_cm (snap_measurements snap ! i)
          \<and> actual_cm (snap_measurements snap ! i) \<le> max_valid (snap_measurements snap ! i)
          \<and> qc_passed (snap_measurements snap ! i)
              = fst (snd (snd (snd (unpack_measurement (measurements ! i))))))
     \<and> save_live_measurements keypoint_names current_annotation_name measurements annotation_name
          (s\<lparr>qc_tolerance_cm := tol, target_distances := td, back_target_distances := btd\<rparr>)
        = (ok, Some snap)"
proof -
  from assms obtain records where
    seq: "sequence_sum (map (live_record_of keypoint_names) measurements) = Inr records"
    and sm: "snap_measurements snap = records"
    by (auto simp: save_live_measurements_def split: if_splits sum.splits)
  have len: "length records = length measurements"
    and nth: "\<And>i. i < length measurements \<Longrightarrow>
                live_record_of keypoint_names (measurements ! i) = Inr (records ! i)"
    using sequence_sum_nth [OF seq] by auto
  have per: "min_valid (records ! i) = py_round2 (fst (snd (unpack_measurement (measurements ! i))) - 1.0)
          \<and> max_valid (records ! i) = py_round2 (fst (snd (unpack_measurement (measurements ! i))) + 1.0)
          \<and> min_valid (records ! i) \<le> fst (snd (unpack_measurement (measurements ! i)))
          \<and> fst (snd (unpack_measurement (measurements ! i))) \<le> max_valid (records ! i)
          \<and> min_valid (records ! i) \<le> actual_cm (records ! i)
          \<and> actual_cm (records ! i) \<le> max_valid (records ! i)
          \<and> qc_passed (records ! i) = fst (snd (snd (snd (unpack_measurement (measurements ! i)))))"
    if i: "i < length measurements" for i
  proof -
    define d where "d = fst (snd (unpack_measurement (measurements ! i)))"
    have b: "min_valid (records ! i) = py_round2 (d - 1.0)"
      "max_valid (records ! i) = py_round2 (d + 1.0)"
      "actual_cm (records ! i) = py_round2 d"
      "qc_passed (records ! i) = fst (snd (snd (snd (unpack_measurement (measurements ! i)))))"
      using live_record_of_bounds [OF nth [OF i]] unfolding d_def by auto
    have c: "py_round2 d \<le> d + 1 / 200" "d - 1 / 200 \<le> py_round2 d"
      using py_round2_close [of d] by auto
    have m: "py_round2 (d - 1.0) = py_round2 d - 1" "py_round2 (d + 1.0) = py_round2 d + 1"
      using py_round2_minus_one [of d] py_round2_plus_one [of d] by simp_all
    show ?thesis
      unfolding d_def [symmetric] b m using c by simp
  qed
  have indep: "save_live_measurements keypoint_names current_annotation_name measurements
          annotation_name (s\<lparr>qc_tolerance_cm := tol, target_distances := td, back_target_distances := btd\<rparr>)
        = (ok, Some snap)"
  proof -
    have "save_live_measurements keypoint_names current_annotation_name measurements
          annotation_name (s\<lparr>qc_tolerance_cm := tol, target_distances := td, back_target_distances := btd\<rparr>)
        = save_live_measurements keypoint_names current_annotation_name measurements
          annotation_name s"
      by (simp add: save_live_measurements_def split: sum.splits)
    then show ?thesis using assms by simp
  qed
  show ?thesis
    unfolding sm
  proof (intro conjI)
    show "length records = length measurements" by (rule len)
  next
    show "\<forall>i < length measurements.
          min_valid (records ! i) = py_round2 (fst (snd (unpack_measurement (measurements ! i))) - 1.0)
          \<and> max_valid (records ! i) = py_round2 (fst (snd (unpack_measurement (measurements ! i))) + 1.0)
          \<and> min_valid (records ! i) \<le> fst (snd (unpack_measurement (measurements ! i)))
          \<and> fst (snd (unpack_measurement (measurements ! i))) \<le> max_valid (records ! i)
          \<and> min_valid (records ! i) \<le> actual_cm (records ! i)
          \<and> actual_cm (records ! i) \<le> max_valid (records ! i)
          \<and> qc_passed (records ! i) = fst (snd (snd (snd (unpack_measurement (measurements ! i)))))"
      using per by blast
  next
    show "save_live_measurements keypoint_names current_annotation_name measurements
          annotation_name (s\<lparr>qc_tolerance_cm := tol, target_distances := td, back_target_distances := btd\<rparr>)
        = (ok, Some snap)"
      by (rule indep)
  qed
qed

theorem reported_bounds_around_measured_value_witness:
  "save_live_measurements [] None [Tuple5 1 210.004 2100.04 False False] None init_measurer
     = (True, Some example_snapshot)
   \<and> min_valid (snap_measurements example_snapshot ! 0) \<le> 210.004
   \<and> 210.004 \<le> max_valid (snap_measurements example_snapshot ! 0)
   \<and> qc_passed (snap_measurements example_snapshot ! 0) = False"
proof -
  have e: "save_live_measurements [] None [Tuple5 1 210.004 2100.04 False False] None init_measurer
     = (True, Some example_snapshot)"
    by (simp add: save_live_measurements_def init_measurer_def live_record_of_def
          example_snapshot_def py_round2_def round_half_even_def Let_def str_int_def
          nat_digits.simps digit_char_def)
  show ?thesis using reported_bounds_around_measured_value [OF e] e by (simp add: example_snapshot_def)
qed

subsection \<open>Annotation round trip\<close>

text \<open>
  \<open>int\<close> reads back what \<open>str\<close> wrote for an integer, so the keys of the target distances
  survive the file; keypoints, numbers and the box are decoded as they were encoded.
\<close>

lemma less_ten_cases:
  "d < (10::nat) \<Longrightarrow> d = 0 \<or> d = 1 \<or> d = 2 \<or> d = 3 \<or> d = 4 \<or> d = 5 \<or> d = 6 \<or> d = 7 \<or> d = 8 \<or> d = 9"
  by arith

lemma digit_char_props:
  assumes "d < 10"
  shows "is_digit (digit_char d)" and "of_char (digit_char d) = 48 + d"
    and "digit_char d \<noteq> CHR ''_''" and "digit_char d \<noteq> CHR ''-''"
    and "digit_char d \<noteq> CHR ''+''" and "\<not> is_space (digit_char d)"
  using less_ten_cases [OF assms]
  by (auto simp: digit_char_def is_digit_def is_space_def)

lemma nat_digits_plain: "nat_digits n \<noteq> [] \<and> (\<forall>c \<in> set (nat_digits n). plain_digit c)"
proof (induction n rule: nat_digits.induct)
  case (1 n)
  show ?case
  proof (cases "n < 10")
    case True
    then show ?thesis
      using digit_char_props [of n] by (simp add: nat_digits.simps [of n] plain_digit_def)
  next
    case False
    have "n mod 10 < 10" by simp
    then have "plain_digit (digit_char (n mod 10))"
      using digit_char_props [of "n mod 10"] by (simp add: plain_digit_def)
    then show ?thesis
      using False 1 by (simp add: nat_digits.simps [of n])
  qed
qed

lemma digits_value_snoc:
  "digits_value (ds @ [c]) = 10 * digits_value ds + (of_char c - 48)"
  by (simp add: digits_value_def)

lemma digits_value_nat_digits: "digits_value (nat_digits n) = n"
proof (induction n rule: nat_digits.induct)
  case (1 n)
  show ?case
  proof (cases "n < 10")
    case True
    then show ?thesis
      using digit_char_props(2) [of n]
      by (simp add: nat_digits.simps [of n] digits_value_def)
  next
    case False
    have "n mod 10 < 10" by simp
    then have "of_char (digit_char (n mod 10)) = 48 + n mod 10"
      by (rule digit_char_props(2))
    then show ?thesis
      using False 1 by (simp add: nat_digits.simps [of n] digits_value_snoc)
  qed
qed

lemma drop_underscores_none:
  "CHR ''_'' \<notin> set ds \<Longrightarrow> drop_underscores True ds = Some ds"
  by (induction ds) auto

lemma drop_underscores_plain:
  assumes "ds \<noteq> []" "\<forall>c \<in> set ds. plain_digit c"
  shows "drop_underscores b ds = Some ds"
proof (cases ds)
  case Nil
  then show ?thesis using assms by simp
next
  case (Cons c cs)
  then have "c \<noteq> CHR ''_''" "CHR ''_'' \<notin> set cs"
    using assms by (auto simp: plain_digit_def)
  then show ?thesis using Cons by (simp add: drop_underscores_none)
qed

lemma parse_digits_nat_digits: "parse_digits (nat_digits n) = Inr n"
proof -
  have p: "nat_digits n \<noteq> []" "\<forall>c \<in> set (nat_digits n). plain_digit c"
    using nat_digits_plain [of n] by auto
  then have "list_all is_digit (nat_digits n)"
    by (simp add: list_all_iff plain_digit_def)
  then show ?thesis
    using p by (simp add: parse_digits_def drop_underscores_plain digits_value_nat_digits)
qed

lemma strip_no_space:
  assumes "\<forall>c \<in> set s. \<not> is_space c"
  shows "strip s = s"
proof -
  have a: "dropWhile is_space s = s" using assms by (cases s) auto
  have "\<forall>c \<in> set (rev s). \<not> is_space c" using assms by simp
  then have b: "dropWhile is_space (rev s) = rev s" by (cases "rev s") auto
  show ?thesis by (simp add: strip_def a b)
qed

lemma py_int_str_int: "py_int (str_int k) = Inr k"
proof -
  define n where "n = nat \<bar>k\<bar>"
  have p: "nat_digits n \<noteq> []" "\<forall>c \<in> set (nat_digits n). plain_digit c"
    using nat_digits_plain [of n] by auto
  then obtain c cs where cs: "nat_digits n = c # cs" by (cases "nat_digits n") auto
  have c: "c \<noteq> CHR ''-''" "c \<noteq> CHR ''+''" using p cs by (auto simp: plain_digit_def)
  have nsp: "\<forall>c \<in> set (nat_digits n). \<not> is_space c" using p by (simp add: plain_digit_def)
  show ?thesis
  proof (cases "k < 0")
    case True
    then have s: "str_int k = CHR ''-'' # nat_digits n" by (simp add: str_int_def n_def)
    have "\<not> is_space CHR ''-''" by (simp add: is_space_def)
    then have "strip (str_int k) = CHR ''-'' # nat_digits n"
      unfolding s using nsp by (intro strip_no_space) auto
    then show ?thesis
      using True by (simp add: py_int_def parse_digits_nat_digits n_def)
  next
    case False
    then have s: "str_int k = nat_digits n" by (simp add: str_int_def n_def)
    have "strip (str_int k) = c # cs"
      unfolding s using nsp cs strip_no_space by metis
    moreover have "parse_digits (c # cs) = Inr n" using parse_digits_nat_digits [of n] cs by simp
    ultimately show ?thesis
      using False c by (simp add: py_int_def n_def)
  qed
qed

lemma update_fresh: "k \<notin> fst ` set al \<Longrightarrow> AList.update k v al = al @ [(k, v)]"
  by (induction al) auto

lemma convert_targets_encoded:
  "distinct (map fst (acc @ td)) \<Longrightarrow>
   convert_targets fos acc (map (\<lambda>(k, v). (str_int k, JNum v)) td) = Inr (acc @ td)"
proof (induction td arbitrary: acc)
  case Nil
  then show ?case by simp
next
  case (Cons kv td)
  obtain k v where kv: "kv = (k, v)" by (cases kv)
  have fresh: "k \<notin> fst ` set acc" using Cons.prems kv by auto
  have d: "distinct (map fst ((acc @ [(k, v)]) @ td))" using Cons.prems kv by auto
  show ?case
    using Cons.IH [OF d] kv
    by (simp add: py_int_str_int py_float_def update_fresh [OF fresh])
qed

lemma keypoints_roundtrip: "keypoints_of_json (keypoints_json kps) = Inr kps"
  by (induction kps) (auto simp: keypoints_json_def)

lemma box_roundtrip: "box_of_json (box_json box) = Inr box"
  by (induction box) (auto simp: box_json_def)

lemma targets_roundtrip:
  "distinct (map fst td) \<Longrightarrow> targets_of_json fos (targets_json td) = Inr td"
  using convert_targets_encoded [of "[]" td fos] by (simp add: targets_json_def)

text \<open>
  Claim C9. For every annotation of the front side (keypoints, target distances with
  distinct integer keys, placement box) that \<open>save_annotation\<close> writes, when the file can be
  written: \<open>load_annotation\<close> on any object that has this file, whatever the object held
  before, does not raise and leaves in it the keypoints, the target distances with the same
  keys and values, and the placement box of the object that saved.
\<close>

theorem annotation_round_trip:
  assumes w: "fs_writable s" and d: "distinct (map fst (target_distances s))"
    and f: "annotation_file t = annotation_file (snd (save_annotation s))"
  shows "\<exists>ok t'. load_annotation fos t = Inr (ok, t')
           \<and> keypoints t' = keypoints s
           \<and> target_distances t' = target_distances s
           \<and> placement_box t' = placement_box s"
proof -
  define doc where "doc = JObj
            [(''keypoints'', keypoints_json (keypoints s)),
             (''target_distances'', targets_json (target_distances s)),
             (''placement_box'', box_json (placement_box s)),
             (''annotation_date'', JStr (clock_now s))]"
  have "annotation_file (snd (save_annotation s)) = Some doc"
    using w by (simp add: save_annotation_def save_reference_image_def doc_def Let_def)
  then have ft: "annotation_file t = Some doc" using f by simp
  have g: "json_get ''keypoints'' (JArr []) doc = Inr (keypoints_json (keypoints s))"
    "json_get ''target_distances'' (JObj []) doc = Inr (targets_json (target_distances s))"
    "json_get ''placement_box'' (JArr []) doc = Inr (box_json (placement_box s))"
    by (simp_all add: json_get_def doc_def)
  show ?thesis
    unfolding load_annotation_def ft
    by (auto simp: g keypoints_roundtrip box_roundtrip targets_roundtrip [OF d]
          load_reference_image_def Let_def)
qed

theorem annotation_round_trip_witness:
  "fs_writable annotated_state
   \<and> distinct (map fst (target_distances annotated_state))
   \<and> annotation_file fresh_reader = annotation_file (snd (save_annotation annotated_state))
   \<and> keypoints fresh_reader = []
   \<and> target_distances fresh_reader = []
   \<and> placement_box fresh_reader = []
   \<and> (\<exists>ok t'. load_annotation (\<lambda>x. None) fresh_reader = Inr (ok, t')
         \<and> keypoints t' = [(100, 100), (300, 100)]
         \<and> target_distances t' = [(1, 20.5), (- 12, 3.81)]
         \<and> placement_box t' = [10, 20, 500, 400])"
proof -
  have a: "fs_writable annotated_state" "distinct (map fst (target_distances annotated_state))"
    by (simp_all add: annotated_state_def init_measurer_def)
  have b: "annotation_file fresh_reader = annotation_file (snd (save_annotation annotated_state))"
    by (simp add: fresh_reader_def)
  have c: "keypoints fresh_reader = []" "target_distances fresh_reader = []"
    "placement_box fresh_reader = []"
    by (simp_all add: fresh_reader_def init_measurer_def)
  show ?thesis
    using annotation_round_trip [OF a b, of "\<lambda>x. None"] a b c
    by (simp add: annotated_state_def init_measurer_def)
qed

end
